theory Spec2Isabelle
  imports Main "HOL-Library.Sublist"
begin

section \<open>The regular expressions of eeprom\_marlin.js\<close>

text \<open>
  The view model of \<^verbatim>\<open>eeprom_marlin.js\<close> recognises firmware output with JavaScript
  regular expressions. All of them have one shape: a sequence of items, each a character
  class taken once, or repeated greedily with \<^verbatim>\<open>*\<close> or \<^verbatim>\<open>+\<close>, and either wrapped in
  a capture group or not. There is no alternation, no anchor and no nested group.

  Strings are lists of \<^typ>\<open>char\<close>: the model reads a JavaScript string whose code units
  are all below 256. The firmware speaks ASCII over the serial line.
\<close>

datatype cclass =
    OneOf string      \<comment> \<open>\<^verbatim>\<open>[abc]\<close>, and a literal character \<^verbatim>\<open>a\<close> as \<^verbatim>\<open>[a]\<close>\<close>
  | NoneOf string     \<comment> \<open>\<^verbatim>\<open>[^abc]\<close>\<close>
  | AnyChar           \<comment> \<open>\<^verbatim>\<open>.\<close>: every character but a line terminator\<close>

definition line_terminators :: string where
  "line_terminators = [CHR 0x0A, CHR 0x0D]"

fun cmatch :: "cclass \<Rightarrow> char \<Rightarrow> bool" where
  "cmatch (OneOf cs) x = (x \<in> set cs)"
| "cmatch (NoneOf cs) x = (x \<notin> set cs)"
| "cmatch AnyChar x = (x \<notin> set line_terminators)"

datatype atom = One cclass | Star cclass | Plus cclass

datatype re_item =
    G atom    \<comment> \<open>the atom inside a capture group \<^verbatim>\<open>( )\<close>\<close>
  | U atom    \<comment> \<open>the atom outside any group\<close>

type_synonym regex = "re_item list"

text \<open>
  Matching is the backtracking search of ECMAScript. \<open>greedy c k acc s\<close> is the
  repeat matcher of a greedy quantifier: it first takes one more character of the class
  and only when the rest of the pattern (the continuation \<open>k\<close>) fails after that does
  it try the continuation at the present position. \<open>acc\<close> is the text taken so far.
\<close>

fun greedy :: "cclass \<Rightarrow> (string \<Rightarrow> 'a option) \<Rightarrow> string \<Rightarrow> string \<Rightarrow> (string \<times> 'a) option" where
  "greedy c k acc [] = map_option (Pair acc) (k [])"
| "greedy c k acc (x # xs) =
     (if cmatch c x then
        (case greedy c k (acc @ [x]) xs of
           Some r \<Rightarrow> Some r
         | None \<Rightarrow> map_option (Pair acc) (k (x # xs)))
      else map_option (Pair acc) (k (x # xs)))"

fun m_atom :: "atom \<Rightarrow> (string \<Rightarrow> 'a option) \<Rightarrow> string \<Rightarrow> (string \<times> 'a) option" where
  "m_atom (One c) k [] = None"
| "m_atom (One c) k (x # xs) = (if cmatch c x then map_option (Pair [x]) (k xs) else None)"
| "m_atom (Star c) k s = greedy c k [] s"
| "m_atom (Plus c) k [] = None"
| "m_atom (Plus c) k (x # xs) = (if cmatch c x then greedy c k [x] xs else None)"

text \<open>
  \<open>m_seq r s\<close> matches the pattern \<open>r\<close> at the start of \<open>s\<close>: the texts of the capture
  groups in order, and what is left of \<open>s\<close> after the match.
\<close>

primrec m_seq :: "regex \<Rightarrow> string \<Rightarrow> (string list \<times> string) option" where
  "m_seq [] = (\<lambda>s. Some ([], s))"
| "m_seq (it # r) = (\<lambda>s.
     case it of
       G a \<Rightarrow> map_option (\<lambda>(txt, caps, rest). (txt # caps, rest)) (m_atom a (m_seq r) s)
     | U a \<Rightarrow> map_option (\<lambda>(txt, caps, rest). (caps, rest)) (m_atom a (m_seq r) s))"

text \<open>
  \<^verbatim>\<open>RegExp.prototype.exec\<close> without the \<^verbatim>\<open>g\<close> flag: the match at the leftmost start
  position that has one. The result is the JavaScript match array: the matched text at
  index 0, then the capture groups. \<^verbatim>\<open>null\<close> is \<open>None\<close>.
\<close>

fun exec :: "regex \<Rightarrow> string \<Rightarrow> string list option" where
  "exec r [] =
     (case m_seq r [] of
        Some (caps, rest) \<Rightarrow> Some ([] # caps)
      | None \<Rightarrow> None)"
| "exec r (x # xs) =
     (case m_seq r (x # xs) of
        Some (caps, rest) \<Rightarrow> Some (take (Suc (length xs) - length rest) (x # xs) # caps)
      | None \<Rightarrow> exec r xs)"

text \<open>\<^verbatim>\<open>match[k]\<close>: reading a JavaScript array past its end gives \<^verbatim>\<open>undefined\<close>, here \<open>None\<close>.\<close>

definition at :: "string list \<Rightarrow> nat \<Rightarrow> string option" where
  "at m k = (if k < length m then Some (m ! k) else None)"

subsection \<open>Building blocks of the patterns\<close>

definition lit :: "string \<Rightarrow> regex" where
  "lit s = map (\<lambda>c. U (One (OneOf [c]))) s"

definition digits :: string where
  "digits = ''0123456789''"

definition nondigit :: re_item where   \<comment> \<open>\<^verbatim>\<open>[^0-9]\<close>\<close>
  "nondigit = U (One (NoneOf digits))"

definition cap_chr :: "char \<Rightarrow> re_item" where   \<comment> \<open>\<^verbatim>\<open>([X])\<close>\<close>
  "cap_chr c = G (One (OneOf [c]))"

definition cap_any :: re_item where   \<comment> \<open>\<^verbatim>\<open>(.*)\<close>\<close>
  "cap_any = G (Star AnyChar)"

text \<open>
  \<open>slots ''XYZ''\<close> is \<^verbatim>\<open>([X])(.*)[^0-9]([Y])(.*)[^0-9]([Z])(.*)\<close>: one letter group and
  one value group per slot, the slots separated by a single non-digit.
\<close>

fun slots :: "string \<Rightarrow> regex" where
  "slots [] = []"
| "slots [c] = [cap_chr c, cap_any]"
| "slots (c # d # cs) = cap_chr c # cap_any # nondigit # slots (d # cs)"

section \<open>The view model's data\<close>

text \<open>
  One entry of an EEPROM section, the object literal that \<^verbatim>\<open>eepromFieldParse\<close> pushes.
  \<open>val\<close> is the source's property \<^verbatim>\<open>value\<close>. \<open>origValue\<close> and \<open>val\<close> hold a capture
  of a match, so they are strings, or \<^verbatim>\<open>undefined\<close> (\<open>None\<close>) where the source reads a
  capture index the pattern does not have.
\<close>

record eeprom_field =
  dataType :: string
  label :: string
  origValue :: "string option"
  val :: "string option"
  unit :: string
  description :: string

text \<open>The patterns that \<^verbatim>\<open>setRegExVars\<close> assigns, under the names of the source.\<close>

record grammar =
  eepromM501RegEx :: regex
  eepromOKRegEx :: regex
  eepromM92RegEx :: regex
  eepromM200RegEx :: regex
  eepromM201RegEx :: regex
  eepromM203RegEx :: regex
  eepromM206RegEx :: regex
  eepromM304RegEx :: regex
  eepromM420RegEx :: regex
  eepromM851RegEx :: regex
  eepromM665RegEx :: regex
  eepromM666RegEx :: regex
  eepromM900RegEx :: regex
  eepromM205RegEx :: regex
  eepromM145S0RegEx :: regex
  eepromM145S1RegEx :: regex
  eepromM145S2RegEx :: regex
  eepromM301RegEx :: regex
  eepromM204RegEx :: regex

text \<open>The eighteen observable arrays of the view model, in the order \<^verbatim>\<open>saveEeprom\<close> walks them.\<close>

record store =
  eepromData1 :: "eeprom_field list"
  eepromData2 :: "eeprom_field list"
  eepromDataLevel :: "eeprom_field list"
  eepromDataSteps :: "eeprom_field list"
  eepromDataFRates :: "eeprom_field list"
  eepromDataMaxAccel :: "eeprom_field list"
  eepromDataAccel :: "eeprom_field list"
  eepromDataPID :: "eeprom_field list"
  eepromDataPIDB :: "eeprom_field list"
  eepromDataHoming :: "eeprom_field list"
  eepromDataMaterialHS0 :: "eeprom_field list"
  eepromDataMaterialHS1 :: "eeprom_field list"
  eepromDataMaterialHS2 :: "eeprom_field list"
  eepromDataFilament :: "eeprom_field list"
  eepromDataEndstop :: "eeprom_field list"
  eepromDataDelta1 :: "eeprom_field list"
  eepromDataDelta2 :: "eeprom_field list"
  eepromDataLinear :: "eeprom_field list"

text \<open>
  The view model \<^verbatim>\<open>self\<close>. Beside the source's own properties it records what the code
  does to its collaborators: \<open>sent\<close> is the list of commands handed to
  \<^verbatim>\<open>self.control.sendCustomCommand\<close>, oldest first; \<open>timers\<close> counts the pending
  \<^verbatim>\<open>setTimeout(function() {self.setControls(true); }, 2000)\<close> callbacks; \<open>downloads\<close>
  holds the text of every backup file offered for download; \<open>isPrinting\<close> is the answer of
  the connection view model. The DOM updates, the notifications and the global
  \<^verbatim>\<open>hasChangedEepromForm\<close> only drive the display and are left out.
\<close>

record vm =
  execBackup :: bool
  startBackup :: bool
  backupConfig :: string
  stateControls :: bool
  FIRMWARE_NAME :: string
  FIRMWARE_INFO :: string
  isMarlinFirmware :: bool
  isPrinting :: bool
  patterns :: grammar
  eeprom :: store
  sent :: "string list"
  timers :: nat
  downloads :: "string list"

section \<open>setRegExVars: the patterns of a firmware version\<close>

definition bugfix_version :: string where
  "bugfix_version = ''Marlin bugfix-2.0.x''"

definition stable_versions :: "string list" where
  "stable_versions =
     [''latest'', ''Marlin 1.1.0-RC8'', ''Marlin 1.1.1'', ''Marlin 1.1.2'', ''Marlin 1.1.3'',
      ''Marlin 1.1.4'', ''Marlin 1.1.5'', ''Marlin 1.1.6'', ''Marlin 1.1.7'', ''Marlin 1.1.8'']"

definition rc_versions :: "string list" where
  "rc_versions =
     [''Marlin 1.1.0-RC1'', ''Marlin 1.1.0-RC2'', ''Marlin 1.1.0-RC3'', ''Marlin 1.1.0-RC4'',
      ''Marlin 1.1.0-RC5'', ''Marlin 1.1.0-RC6'', ''Marlin 1.1.0-RC7'']"

definition legacy_versions :: "string list" where
  "legacy_versions = [''Marlin 1.0.2+'', ''Marlin V1.0.2;'', ''Marlin 1.0.2'', ''Marlin V1;'']"

text \<open>
  The assignments of lines 18 to 29, made for every version. A property the function does
  not assign keeps the value it had, so the function takes the patterns before the call.
\<close>

definition setAllVersions :: "grammar \<Rightarrow> grammar" where
  "setAllVersions g = g
     \<lparr> eepromM501RegEx := lit ''M501'',
       eepromOKRegEx := lit ''ok'',
       eepromM92RegEx := lit ''M92 '' @ slots ''XYZE'',
       eepromM200RegEx := lit ''M200 '' @ slots ''D'',
       eepromM201RegEx := lit ''M201 '' @ slots ''XYZE'',
       eepromM203RegEx := lit ''M203 '' @ slots ''XYZE'',
       eepromM206RegEx := lit ''M206 '' @ slots ''XYZ'',
       eepromM304RegEx := lit ''M304 '' @ slots ''PID'',
       eepromM420RegEx := lit ''M420 '' @
          [cap_chr CHR ''S'', G (Star (OneOf ''01'')), U (Star (NoneOf digits)),
           G (Star (OneOf ''Z'')), cap_any],
       eepromM851RegEx := lit ''M851 '' @ slots ''Z'',
       eepromM665RegEx := lit ''M665 '' @ slots ''LRHSBXYZ'',
       eepromM666RegEx := lit ''M666 '' @ slots ''XYZ'' \<rparr>"

definition setRegExVars :: "string \<Rightarrow> grammar \<Rightarrow> grammar" where
  "setRegExVars version g0 =
    (let g = setAllVersions g0 in
     if version = bugfix_version then g
       \<lparr> eepromM900RegEx := lit ''M900 '' @
            [cap_chr CHR ''K'', G (Plus (OneOf ''0123456789.'')), cap_any],
         eepromM205RegEx := lit ''M205 '' @ slots ''BSTXYZE'',
         eepromM145S0RegEx := lit ''M145 S0 '' @ slots ''HBF'',
         eepromM145S1RegEx := lit ''M145 S1 '' @ slots ''HBF'',
         eepromM145S2RegEx := lit ''M145 S2 '' @ slots ''HBF'',
         eepromM301RegEx := lit ''M301 '' @ slots ''PID'',
         eepromM204RegEx := lit ''M204 '' @ slots ''PRT'' \<rparr>
     else if version \<in> set stable_versions then g
       \<lparr> eepromM205RegEx := lit ''M205 '' @ slots ''STBXYZE'',
         eepromM145S0RegEx := lit ''M145 S0 '' @ slots ''HBF'',
         eepromM145S1RegEx := lit ''M145 S1 '' @ slots ''HBF'',
         eepromM145S2RegEx := lit ''M145 S2 '' @ slots ''HBF'',
         eepromM301RegEx := lit ''M301 '' @ slots ''PID'',
         eepromM204RegEx := lit ''M204 '' @ slots ''PRT'',
         eepromM900RegEx := lit ''M900 '' @ slots ''KR'' \<rparr>
     else if version \<in> set rc_versions then g
       \<lparr> eepromM205RegEx := lit ''M205 '' @ slots ''STBXZE'',
         eepromM145S0RegEx := lit ''M145 M0 '' @ slots ''HBF'',
         eepromM145S1RegEx := lit ''M145 M1 '' @ slots ''HBF'',
         eepromM145S2RegEx := lit ''M145 M2 '' @ slots ''HBF'',
         eepromM301RegEx := lit ''M301 '' @ slots ''PIDCL'',
         eepromM204RegEx := lit ''M204 '' @ slots ''PRT'',
         eepromM900RegEx := lit ''M900 '' @ slots ''KR'' \<rparr>
     else if version \<in> set legacy_versions then g
       \<lparr> eepromM204RegEx := lit ''M204 '' @ slots ''ST'',
         eepromM205RegEx := lit ''M205 '' @ slots ''STBXZE'',
         eepromM301RegEx := lit ''M301 '' @ slots ''PID'',
         eepromM900RegEx := lit ''M900 '' @ slots ''KR'' \<rparr>
     else g
       \<lparr> eepromM205RegEx := lit ''M205 '' @ slots ''STBXYZE'',
         eepromM145S0RegEx := lit ''M145 S0 '' @ slots ''HBF'',
         eepromM145S1RegEx := lit ''M145 S1 '' @ slots ''HBF'',
         eepromM145S2RegEx := lit ''M145 S2 '' @ slots ''HBF'',
         eepromM301RegEx := lit ''M301 '' @ slots ''PID'',
         eepromM204RegEx := lit ''M204 '' @ slots ''PRT'',
         eepromM900RegEx := lit ''M900 '' @ slots ''KR'' \<rparr>)"

section \<open>eepromFieldParse: one line into the sections\<close>

text \<open>
  Every push of the source has the same object literal:
  \<^verbatim>\<open>{dataType: .., label: .., origValue: ((restoreBackup) ? '' : match[k]), value: match[k],
  unit: .., description: ..}\<close>.
\<close>

definition fld ::
  "bool \<Rightarrow> string list \<Rightarrow> string \<Rightarrow> string \<Rightarrow> nat \<Rightarrow> string \<Rightarrow> string \<Rightarrow> eeprom_field" where
  "fld restoreBackup m dt lb k u d =
     \<lparr> dataType = dt, label = lb,
       origValue = (if restoreBackup then Some [] else at m k),
       val = at m k, unit = u, description = d \<rparr>"

text \<open>
  A block is one \<^verbatim>\<open>match = self.<pattern>.exec(line); if (match) { ... }\<close> of the source.
  It reads the patterns, the line and \<^verbatim>\<open>restoreBackup\<close>, and pushes to the sections.
\<close>

type_synonym block = "grammar \<Rightarrow> string \<Rightarrow> bool \<Rightarrow> store \<Rightarrow> store"

definition parseM92 :: block where   \<comment> \<open>lines 140 to 178\<close>
  "parseM92 g line rb s =
     (case exec (eepromM92RegEx g) line of
        None \<Rightarrow> s
      | Some m \<Rightarrow> s\<lparr>eepromDataSteps := eepromDataSteps s @
          [fld rb m ''M92 X'' ''X axis'' 2 ''mm'' ''steps per unit'',
           fld rb m ''M92 Y'' ''Y axis'' 4 ''mm'' ''steps per unit'',
           fld rb m ''M92 Z'' ''Z axis'' 6 ''mm'' ''steps per unit'',
           fld rb m ''M92 E'' ''Extruder'' 8 ''mm'' ''steps per unit'']\<rparr>)"

definition parseM203 :: block where   \<comment> \<open>lines 180 to 218\<close>
  "parseM203 g line rb s =
     (case exec (eepromM203RegEx g) line of
        None \<Rightarrow> s
      | Some m \<Rightarrow> s\<lparr>eepromDataFRates := eepromDataFRates s @
          [fld rb m ''M203 X'' ''X axis'' 2 ''mm'' ''rate per unit'',
           fld rb m ''M203 Y'' ''Y axis'' 4 ''mm'' ''rate per unit'',
           fld rb m ''M203 Z'' ''Z axis'' 6 ''mm'' ''rate per unit'',
           fld rb m ''M203 E'' ''Extruder'' 8 ''mm'' ''rate per unit'']\<rparr>)"

definition parseM201 :: block where   \<comment> \<open>lines 220 to 258\<close>
  "parseM201 g line rb s =
     (case exec (eepromM201RegEx g) line of
        None \<Rightarrow> s
      | Some m \<Rightarrow> s\<lparr>eepromDataMaxAccel := eepromDataMaxAccel s @
          [fld rb m ''M201 X'' ''X axis'' 2 ''mm/s2'' '''',
           fld rb m ''M201 Y'' ''Y axis'' 4 ''mm/s2'' '''',
           fld rb m ''M201 Z'' ''Z axis'' 6 ''mm/s2'' '''',
           fld rb m ''M201 E'' ''Extruder'' 8 ''mm/s2'' '''']\<rparr>)"

definition parseM851 :: block where   \<comment> \<open>lines 260 to 271\<close>
  "parseM851 g line rb s =
     (case exec (eepromM851RegEx g) line of
        None \<Rightarrow> s
      | Some m \<Rightarrow> s\<lparr>eepromData1 := eepromData1 s @
          [fld rb m ''M851 Z'' ''Z-Probe Offset'' 2 ''mm'' '''']\<rparr>)"

definition parseM206 :: block where   \<comment> \<open>lines 273 to 302\<close>
  "parseM206 g line rb s =
     (case exec (eepromM206RegEx g) line of
        None \<Rightarrow> s
      | Some m \<Rightarrow> s\<lparr>eepromDataHoming := eepromDataHoming s @
          [fld rb m ''M206 X'' ''X axis'' 2 ''mm'' '''',
           fld rb m ''M206 Y'' ''Y axis'' 4 ''mm'' '''',
           fld rb m ''M206 Z'' ''Z axis'' 6 ''mm'' '''']\<rparr>)"

definition parseM666 :: block where   \<comment> \<open>lines 304 to 333\<close>
  "parseM666 g line rb s =
     (case exec (eepromM666RegEx g) line of
        None \<Rightarrow> s
      | Some m \<Rightarrow> s\<lparr>eepromDataEndstop := eepromDataEndstop s @
          [fld rb m ''M666 X'' ''X axis'' 2 ''mm'' '''',
           fld rb m ''M666 Y'' ''Y axis'' 4 ''mm'' '''',
           fld rb m ''M666 Z'' ''Z axis'' 6 ''mm'' '''']\<rparr>)"

definition parseM665 :: block where   \<comment> \<open>lines 335 to 391\<close>
  "parseM665 g line rb s =
     (case exec (eepromM665RegEx g) line of
        None \<Rightarrow> s
      | Some m \<Rightarrow> s
         \<lparr>eepromDataDelta1 := eepromDataDelta1 s @
            [fld rb m ''M665 L'' ''Diag Rod'' 2 ''mm'' '''',
             fld rb m ''M665 R'' ''Radius'' 4 ''mm'' '''',
             fld rb m ''M665 S'' ''Segments'' 6 ''s'' ''''],
          eepromDataDelta2 := eepromDataDelta2 s @
            [fld rb m ''M665 A'' ''Diag A'' 8 ''mm'' '''',
             fld rb m ''M665 B'' ''Diag B'' 10 ''mm'' '''',
             fld rb m ''M665 C'' ''Diag C'' 12 ''mm'' '''']\<rparr>)"

definition parseM900 :: block where   \<comment> \<open>lines 393 to 413\<close>
  "parseM900 g line rb s =
     (case exec (eepromM900RegEx g) line of
        None \<Rightarrow> s
      | Some m \<Rightarrow> s\<lparr>eepromDataLinear := eepromDataLinear s @
          [fld rb m ''M900 K'' ''Linear Advance K'' 2 ''mm'' '''',
           fld rb m ''M900 R'' ''Linear Ratio'' 4 ''mm'' '''']\<rparr>)"

definition parseM200 :: block where   \<comment> \<open>lines 415 to 428\<close>
  "parseM200 g line rb s =
     (case exec (eepromM200RegEx g) line of
        None \<Rightarrow> s
      | Some m \<Rightarrow>
          if length (eepromDataFilament s) = 0
          then s\<lparr>eepromDataFilament := eepromDataFilament s @
                 [fld rb m ''M200 D'' ''Diameter'' 2 ''mm'' '''']\<rparr>
          else s)"

definition parseM304 :: block where   \<comment> \<open>lines 430 to 459\<close>
  "parseM304 g line rb s =
     (case exec (eepromM304RegEx g) line of
        None \<Rightarrow> s
      | Some m \<Rightarrow> s\<lparr>eepromDataPIDB := eepromDataPIDB s @
          [fld rb m ''M304 P'' ''Bed Kp'' 2 ''term'' '''',
           fld rb m ''M304 I'' ''Ki'' 4 ''term'' '''',
           fld rb m ''M304 D'' ''Kd'' 6 ''term'' '''']\<rparr>)"

text \<open>
  The blocks under the firmware name. The source repeats the text of a block in several
  branches; a block that is the same text in each is defined once (lines 463 to 528, 701 to
  766 and 1044 to 1109 for \<open>parseM205\<close>).
\<close>

definition parseM205 :: block where
  "parseM205 g line rb s =
     (case exec (eepromM205RegEx g) line of
        None \<Rightarrow> s
      | Some m \<Rightarrow> s
         \<lparr>eepromData1 := eepromData1 s @
            [fld rb m ''M205 S'' ''Min feedrate'' 2 ''mm/s'' '''',
             fld rb m ''M205 T'' ''Min travel'' 4 ''mm/s'' '''',
             fld rb m ''M205 B'' ''Min segment'' 6 ''mm/s'' ''''],
          eepromData2 := eepromData2 s @
            [fld rb m ''M205 X'' ''Max X jerk'' 8 ''mm/s'' '''',
             fld rb m ''M205 Y'' ''Max Y jerk'' 10 ''mm/s'' '''',
             fld rb m ''M205 Z'' ''Max Z jerk'' 12 ''mm/s'' '''',
             fld rb m ''M205 E'' ''Max E jerk'' 14 ''mm/s'' '''']\<rparr>)"

definition parseM205_legacy :: block where   \<comment> \<open>lines 933 to 989\<close>
  "parseM205_legacy g line rb s =
     (case exec (eepromM205RegEx g) line of
        None \<Rightarrow> s
      | Some m \<Rightarrow> s
         \<lparr>eepromData1 := eepromData1 s @
            [fld rb m ''M205 S'' ''Min feedrate'' 2 ''mm/s'' '''',
             fld rb m ''M205 T'' ''Min travel'' 4 ''mm/s'' '''',
             fld rb m ''M205 B'' ''Min segment'' 6 ''mm/s'' ''''],
          eepromData2 := eepromData2 s @
            [fld rb m ''M205 X'' ''Max X jerk'' 8 ''mm/s'' '''',
             fld rb m ''M205 Z'' ''Max Z jerk'' 10 ''mm/s'' '''',
             fld rb m ''M205 E'' ''Max E jerk'' 12 ''mm/s'' '''']\<rparr>)"

definition parseM204 :: block where   \<comment> \<open>lines 530 to 559, 768 to 797, 1111 to 1140\<close>
  "parseM204 g line rb s =
     (case exec (eepromM204RegEx g) line of
        None \<Rightarrow> s
      | Some m \<Rightarrow> s\<lparr>eepromDataAccel := eepromDataAccel s @
          [fld rb m ''M204 P'' ''Printing moves'' 2 ''mm/s2'' '''',
           fld rb m ''M204 R'' ''Retract'' 4 ''mm/s2'' '''',
           fld rb m ''M204 T'' ''Travel'' 6 ''mm/s2'' '''']\<rparr>)"

definition parseM204_legacy :: block where   \<comment> \<open>lines 991 to 1011\<close>
  "parseM204_legacy g line rb s =
     (case exec (eepromM204RegEx g) line of
        None \<Rightarrow> s
      | Some m \<Rightarrow> s\<lparr>eepromDataAccel := eepromDataAccel s @
          [fld rb m ''M204 S'' ''Printing moves'' 2 ''mm/s2'' '''',
           fld rb m ''M204 T'' ''Travel'' 4 ''mm/s2'' '''']\<rparr>)"

definition parseM301 :: block where   \<comment> \<open>lines 561 to 590, 1013 to 1042, 1142 to 1171\<close>
  "parseM301 g line rb s =
     (case exec (eepromM301RegEx g) line of
        None \<Rightarrow> s
      | Some m \<Rightarrow> s\<lparr>eepromDataPID := eepromDataPID s @
          [fld rb m ''M301 P'' ''Hotend Kp'' 2 ''term'' '''',
           fld rb m ''M301 I'' ''Ki'' 4 ''term'' '''',
           fld rb m ''M301 D'' ''Kd'' 6 ''term'' '''']\<rparr>)"

definition parseM301_rc :: block where   \<comment> \<open>lines 799 to 846\<close>
  "parseM301_rc g line rb s =
     (case exec (eepromM301RegEx g) line of
        None \<Rightarrow> s
      | Some m \<Rightarrow> s\<lparr>eepromDataPID := eepromDataPID s @
          [fld rb m ''M301 P'' ''Hotend Kp'' 2 ''term'' '''',
           fld rb m ''M301 I'' ''Ki'' 4 ''term'' '''',
           fld rb m ''M301 D'' ''Kd'' 6 ''term'' '''',
           fld rb m ''M301 C'' ''Kc'' 8 ''term'' '''',
           fld rb m ''M301 L'' ''LPQ'' 10 ''len'' '''']\<rparr>)"

text \<open>
  The three fields of a material block. \<open>tag\<close> is \<^verbatim>\<open>S0\<close>, \<^verbatim>\<open>S1\<close>, \<^verbatim>\<open>S2\<close> in the stable and
  the last branch (lines 592 to 675, 1173 to 1256), and \<^verbatim>\<open>M0\<close>, \<^verbatim>\<open>M1\<close>, \<^verbatim>\<open>M2\<close> in the branch of
  the release candidates (lines 848 to 931). Only the first label carries the tag.
\<close>

definition material_fields :: "bool \<Rightarrow> string list \<Rightarrow> string \<Rightarrow> eeprom_field list" where
  "material_fields rb m tag =
     [fld rb m (''M145 '' @ tag @ '' H'') (tag @ '' Hotend Temperature'') 2 '''' '''',
      fld rb m (''M145 '' @ tag @ '' B'') ''Bed Temperature'' 4 '''' '''',
      fld rb m (''M145 '' @ tag @ '' F'') ''Fan Speed'' 6 '''' '''']"

definition parseM145S0 :: "string \<Rightarrow> block" where
  "parseM145S0 tag g line rb s =
     (case exec (eepromM145S0RegEx g) line of
        None \<Rightarrow> s
      | Some m \<Rightarrow>
          s\<lparr>eepromDataMaterialHS0 := eepromDataMaterialHS0 s @ material_fields rb m tag\<rparr>)"

definition parseM145S1 :: "string \<Rightarrow> block" where
  "parseM145S1 tag g line rb s =
     (case exec (eepromM145S1RegEx g) line of
        None \<Rightarrow> s
      | Some m \<Rightarrow>
          s\<lparr>eepromDataMaterialHS1 := eepromDataMaterialHS1 s @ material_fields rb m tag\<rparr>)"

definition parseM145S2 :: "string \<Rightarrow> block" where
  "parseM145S2 tag g line rb s =
     (case exec (eepromM145S2RegEx g) line of
        None \<Rightarrow> s
      | Some m \<Rightarrow>
          s\<lparr>eepromDataMaterialHS2 := eepromDataMaterialHS2 s @ material_fields rb m tag\<rparr>)"

text \<open>
  The bed levelling block (lines 677 to 699, 1258 to 1280). The second push stands under
  \<^verbatim>\<open>if (match.length >= 3)\<close>; \<open>length m\<close> is the length of the match array.
\<close>

definition parseM420 :: block where
  "parseM420 g line rb s =
     (case exec (eepromM420RegEx g) line of
        None \<Rightarrow> s
      | Some m \<Rightarrow>
          (let s1 = s\<lparr>eepromDataLevel := eepromDataLevel s @
                      [fld rb m ''M420 S'' ''Auto Bed Leveling'' 2 ''0/1'' '''']\<rparr>
           in if length m \<ge> 3
              then s1\<lparr>eepromDataLevel := eepromDataLevel s1 @
                      [fld rb m ''M420 Z'' ''Fade height'' 4 ''mm'' '''']\<rparr>
              else s1))"

text \<open>The names that the branches of \<^verbatim>\<open>eepromFieldParse\<close> compare \<^verbatim>\<open>firmware_name()\<close> with.\<close>

definition stable_names :: "string list" where   \<comment> \<open>line 461\<close>
  "stable_names =
     [''Marlin 1.1.0-RC8'', ''Marlin 1.1.1'', ''Marlin 1.1.2'', ''Marlin 1.1.3'',
      ''Marlin 1.1.4'', ''Marlin 1.1.5'', ''Marlin 1.1.6'', ''Marlin 1.1.7'', ''Marlin 1.1.8'',
      ''Marlin bugfix-2.0.x'', ''Marlin bugfix-2.0.x (Github)'']"

definition rc_names :: "string list" where   \<comment> \<open>line 700\<close>
  "rc_names =
     [''Marlin 1.1.0-RC1'', ''Marlin 1.1.0-RC2'', ''Marlin 1.1.0-RC3'', ''Marlin 1.1.0-RC4'',
      ''Marlin 1.1.0-RC5'', ''Marlin 1.1.0-RC6'', ''Marlin 1.1.0-RC7'']"

definition legacy_names :: "string list" where   \<comment> \<open>line 932\<close>
  "legacy_names = [''Marlin 1.0.2+'', ''Marlin V1.0.2;'', ''Marlin 1.0.2'', ''Marlin V1;'']"

definition common_blocks :: "block list" where
  "common_blocks =
     [parseM92, parseM203, parseM201, parseM851, parseM206, parseM666, parseM665,
      parseM900, parseM200, parseM304]"

definition latest_blocks :: "block list" where
  "latest_blocks =
     [parseM205, parseM204, parseM301,
      parseM145S0 ''S0'', parseM145S1 ''S1'', parseM145S2 ''S2'', parseM420]"

definition rc_blocks :: "block list" where
  "rc_blocks =
     [parseM205, parseM204, parseM301_rc,
      parseM145S0 ''M0'', parseM145S1 ''M1'', parseM145S2 ''M2'']"

definition legacy_blocks :: "block list" where
  "legacy_blocks = [parseM205_legacy, parseM204_legacy, parseM301]"

definition version_blocks :: "string \<Rightarrow> block list" where
  "version_blocks name =
     (if name \<in> set stable_names then latest_blocks
      else if name \<in> set rc_names then rc_blocks
      else if name \<in> set legacy_names then legacy_blocks
      else latest_blocks)"

text \<open>The blocks run one after the other, each on the sections the one before left.\<close>

fun run_blocks :: "block list \<Rightarrow> grammar \<Rightarrow> string \<Rightarrow> bool \<Rightarrow> store \<Rightarrow> store" where
  "run_blocks [] g line rb s = s"
| "run_blocks (b # bs) g line rb s = run_blocks bs g line rb (b g line rb s)"

definition eepromFieldParse :: "string \<Rightarrow> bool \<Rightarrow> vm \<Rightarrow> vm" where
  "eepromFieldParse line restoreBackup v =
     (let v1 = (if exec (eepromOKRegEx (patterns v)) line \<noteq> None
                then v\<lparr>timers := Suc (timers v)\<rparr> else v)
      in v1\<lparr>eeprom :=
           run_blocks (common_blocks @ version_blocks (FIRMWARE_NAME v1))
             (patterns v1) line restoreBackup (eeprom v1)\<rparr>)"

section \<open>Commands, controls and the load cycle\<close>

text \<open>JavaScript's \<^verbatim>\<open>+\<close> on strings writes \<^verbatim>\<open>undefined\<close> for an undefined operand.\<close>

definition js_str :: "string option \<Rightarrow> string" where
  "js_str x = (case x of None \<Rightarrow> ''undefined'' | Some s \<Rightarrow> s)"

definition sendCustomCommand :: "string \<Rightarrow> vm \<Rightarrow> vm" where
  "sendCustomCommand cmd v = v\<lparr>sent := sent v @ [cmd]\<rparr>"

definition setControls :: "bool \<Rightarrow> vm \<Rightarrow> vm" where
  "setControls state v = (if stateControls v \<noteq> state then v\<lparr>stateControls := state\<rparr> else v)"

definition empty_store :: store where
  "empty_store =
     \<lparr> eepromData1 = [], eepromData2 = [], eepromDataLevel = [], eepromDataSteps = [],
       eepromDataFRates = [], eepromDataMaxAccel = [], eepromDataAccel = [],
       eepromDataPID = [], eepromDataPIDB = [], eepromDataHoming = [],
       eepromDataMaterialHS0 = [], eepromDataMaterialHS1 = [], eepromDataMaterialHS2 = [],
       eepromDataFilament = [], eepromDataEndstop = [], eepromDataDelta1 = [],
       eepromDataDelta2 = [], eepromDataLinear = [] \<rparr>"

text \<open>The eighteen assignments \<^verbatim>\<open>self.eepromData..([])\<close> that open a load, a backup and a restore.\<close>

definition clearEepromData :: "vm \<Rightarrow> vm" where
  "clearEepromData v = v\<lparr>eeprom := empty_store\<rparr>"

definition requestEepromData :: "vm \<Rightarrow> vm" where   \<comment> \<open>\<^verbatim>\<open>_requestEepromData\<close>\<close>
  "requestEepromData v =
     (if \<not> isPrinting v
      then sendCustomCommand ''M501'' (sendCustomCommand ''M504'' v)
      else v)"

definition requestSaveDataToEeprom :: "string \<Rightarrow> string option \<Rightarrow> string list \<Rightarrow> string list" where
  \<comment> \<open>\<^verbatim>\<open>_requestSaveDataToEeprom\<close>, on the list of the commands sent\<close>
  "requestSaveDataToEeprom data_type value out = out @ [data_type @ js_str value]"

definition loadEeprom :: "vm \<Rightarrow> vm" where
  "loadEeprom v = requestEepromData (clearEepromData (setControls False v))"

definition backupEeprom :: "vm \<Rightarrow> vm" where
  "backupEeprom v =
     requestEepromData
       (clearEepromData ((setControls False v)\<lparr>execBackup := True, backupConfig := []\<rparr>))"

section \<open>saveEeprom\<close>

text \<open>
  The sections by name, to read and to write one of them. \<open>save_order\<close> is the order in which
  \<^verbatim>\<open>saveEeprom\<close> walks them (lines 1591 to 1733).
\<close>

datatype section_name =
    Data1 | Data2 | Level | Steps | FRates | MaxAccel | Accel | PID | PIDB | Homing
  | MaterialHS0 | MaterialHS1 | MaterialHS2 | Filament | Endstop | Delta1 | Delta2 | Linear

fun sec :: "section_name \<Rightarrow> store \<Rightarrow> eeprom_field list" where
  "sec Data1 s = eepromData1 s"
| "sec Data2 s = eepromData2 s"
| "sec Level s = eepromDataLevel s"
| "sec Steps s = eepromDataSteps s"
| "sec FRates s = eepromDataFRates s"
| "sec MaxAccel s = eepromDataMaxAccel s"
| "sec Accel s = eepromDataAccel s"
| "sec PID s = eepromDataPID s"
| "sec PIDB s = eepromDataPIDB s"
| "sec Homing s = eepromDataHoming s"
| "sec MaterialHS0 s = eepromDataMaterialHS0 s"
| "sec MaterialHS1 s = eepromDataMaterialHS1 s"
| "sec MaterialHS2 s = eepromDataMaterialHS2 s"
| "sec Filament s = eepromDataFilament s"
| "sec Endstop s = eepromDataEndstop s"
| "sec Delta1 s = eepromDataDelta1 s"
| "sec Delta2 s = eepromDataDelta2 s"
| "sec Linear s = eepromDataLinear s"

fun set_sec :: "section_name \<Rightarrow> eeprom_field list \<Rightarrow> store \<Rightarrow> store" where
  "set_sec Data1 fs s = s\<lparr>eepromData1 := fs\<rparr>"
| "set_sec Data2 fs s = s\<lparr>eepromData2 := fs\<rparr>"
| "set_sec Level fs s = s\<lparr>eepromDataLevel := fs\<rparr>"
| "set_sec Steps fs s = s\<lparr>eepromDataSteps := fs\<rparr>"
| "set_sec FRates fs s = s\<lparr>eepromDataFRates := fs\<rparr>"
| "set_sec MaxAccel fs s = s\<lparr>eepromDataMaxAccel := fs\<rparr>"
| "set_sec Accel fs s = s\<lparr>eepromDataAccel := fs\<rparr>"
| "set_sec PID fs s = s\<lparr>eepromDataPID := fs\<rparr>"
| "set_sec PIDB fs s = s\<lparr>eepromDataPIDB := fs\<rparr>"
| "set_sec Homing fs s = s\<lparr>eepromDataHoming := fs\<rparr>"
| "set_sec MaterialHS0 fs s = s\<lparr>eepromDataMaterialHS0 := fs\<rparr>"
| "set_sec MaterialHS1 fs s = s\<lparr>eepromDataMaterialHS1 := fs\<rparr>"
| "set_sec MaterialHS2 fs s = s\<lparr>eepromDataMaterialHS2 := fs\<rparr>"
| "set_sec Filament fs s = s\<lparr>eepromDataFilament := fs\<rparr>"
| "set_sec Endstop fs s = s\<lparr>eepromDataEndstop := fs\<rparr>"
| "set_sec Delta1 fs s = s\<lparr>eepromDataDelta1 := fs\<rparr>"
| "set_sec Delta2 fs s = s\<lparr>eepromDataDelta2 := fs\<rparr>"
| "set_sec Linear fs s = s\<lparr>eepromDataLinear := fs\<rparr>"

definition save_order :: "section_name list" where
  "save_order =
     [Data1, Data2, Level, Steps, FRates, MaxAccel, Accel, PID, PIDB, Homing,
      MaterialHS0, MaterialHS1, MaterialHS2, Filament, Endstop, Delta1, Delta2, Linear]"

text \<open>
  The test \<^verbatim>\<open>data.origValue != data.value\<close> is JavaScript's loose inequality. Both operands are
  a string or \<^verbatim>\<open>undefined\<close>: two strings differ when their texts differ, \<^verbatim>\<open>undefined\<close> differs
  from every string, the empty one too, and not from itself.
\<close>

definition js_neq :: "string option \<Rightarrow> string option \<Rightarrow> bool" where
  "js_neq a b = (a \<noteq> b)"

text \<open>
  One loop \<^verbatim>\<open>_.each(eepromData, function(data) {...})\<close> of \<^verbatim>\<open>saveEeprom\<close>: the entries of one
  section after the loop, and the commands sent, \<open>out\<close> being those sent before.
\<close>

fun saveEach :: "eeprom_field list \<Rightarrow> string list \<Rightarrow> eeprom_field list \<times> string list" where
  "saveEach [] out = ([], out)"
| "saveEach (d # ds) out =
     (if js_neq (origValue d) (val d) then
        (case saveEach ds (requestSaveDataToEeprom (dataType d) (val d) out) of
           (ds', out') \<Rightarrow> (d\<lparr>origValue := val d\<rparr> # ds', out'))
      else
        (case saveEach ds out of (ds', out') \<Rightarrow> (d # ds', out')))"

definition saveSection :: "section_name \<Rightarrow> vm \<Rightarrow> vm" where
  "saveSection i v =
     (case saveEach (sec i (eeprom v)) (sent v) of
        (fs, out) \<Rightarrow> v\<lparr>eeprom := set_sec i fs (eeprom v), sent := out\<rparr>)"

fun saveSections :: "section_name list \<Rightarrow> vm \<Rightarrow> vm" where
  "saveSections [] v = v"
| "saveSections (i # is) v = saveSections is (saveSection i v)"

definition saveEeprom :: "vm \<Rightarrow> vm" where
  "saveEeprom v =
     loadEeprom
       (sendCustomCommand ''M504''
         (sendCustomCommand ''M500''
           (saveSections save_order (setControls False v))))"

section \<open>Restore from a file\<close>

text \<open>\<^verbatim>\<open>String.prototype.split('\n')\<close>: the pieces between the line feeds, empty ones too.\<close>

fun split_nl :: "string \<Rightarrow> string list" where
  "split_nl [] = [[]]"
| "split_nl (c # cs) =
     (if c = CHR 0x0A then [] # split_nl cs
      else (case split_nl cs of
              [] \<Rightarrow> [[c]]
            | l # ls \<Rightarrow> (c # l) # ls))"

fun parseLines :: "string list \<Rightarrow> bool \<Rightarrow> vm \<Rightarrow> vm" where
  \<comment> \<open>\<^verbatim>\<open>_.each(lines, function (line) { self.eepromFieldParse(line, restoreBackup); })\<close>\<close>
  "parseLines [] rb v = v"
| "parseLines (line # lines) rb v = parseLines lines rb (eepromFieldParse line rb v)"

text \<open>
  The \<^verbatim>\<open>onload\<close> handler that \<^verbatim>\<open>handleFileSelect\<close> installs for a chosen file (lines 1509 to
  1537); \<open>result\<close> is the text of the file. \<open>handleFileSelect\<close> takes the texts of the chosen
  files in the order in which their reads complete.
\<close>

definition fileOnload :: "string \<Rightarrow> vm \<Rightarrow> vm" where
  "fileOnload result v =
     parseLines (split_nl result) True
       (clearEepromData ((setControls False v)\<lparr>backupConfig := result\<rparr>))"

fun handleFileSelect :: "string list \<Rightarrow> vm \<Rightarrow> vm" where
  "handleFileSelect [] v = v"
| "handleFileSelect (f # fs) v = handleFileSelect fs (fileOnload f v)"

section \<open>fromCurrentData: firmware detection and the backup session\<close>

text \<open>
  The three patterns outside \<^verbatim>\<open>setRegExVars\<close> (lines 78 to 80) carry the flag \<^verbatim>\<open>i\<close>: a letter
  of the pattern matches in either case. \<^verbatim>\<open>\s\<close> is the white space of ECMAScript among the
  characters below 256.
\<close>

definition case_variants :: "char \<Rightarrow> string" where
  "case_variants c =
     (case map_of (zip ''abcdefghijklmnopqrstuvwxyz'' ''ABCDEFGHIJKLMNOPQRSTUVWXYZ'') c of
        Some C \<Rightarrow> [c, C]
      | None \<Rightarrow>
         (case map_of (zip ''ABCDEFGHIJKLMNOPQRSTUVWXYZ'' ''abcdefghijklmnopqrstuvwxyz'') c of
            Some l \<Rightarrow> [c, l]
          | None \<Rightarrow> [c]))"

definition lit_i :: "string \<Rightarrow> regex" where
  "lit_i s = map (\<lambda>c. U (One (OneOf (case_variants c)))) s"

definition js_space :: string where
  "js_space = [CHR 0x09, CHR 0x0A, CHR 0x0B, CHR 0x0C, CHR 0x0D, CHR 0x20, CHR 0xA0]"

definition firmwareRegEx :: regex where   \<comment> \<open>\<^verbatim>\<open>/FIRMWARE_NAME:([^\s]*) ([^\s]*)/i\<close>\<close>
  "firmwareRegEx =
     lit_i ''FIRMWARE_NAME:'' @
     [G (Star (NoneOf js_space)), U (One (OneOf '' '')), G (Star (NoneOf js_space))]"

definition firmwareCapRegEx :: regex where   \<comment> \<open>\<^verbatim>\<open>/Cap:([^\s]*)/i\<close>\<close>
  "firmwareCapRegEx = lit_i ''Cap:'' @ [G (Star (NoneOf js_space))]"

definition marlinRegEx :: regex where   \<comment> \<open>\<^verbatim>\<open>/Marlin[^\s]*/i\<close>\<close>
  "marlinRegEx = lit_i ''Marlin'' @ [U (Star (NoneOf js_space))]"

text \<open>\<^verbatim>\<open>String.prototype.replace\<close> with a string to look for: the first occurrence only.\<close>

fun replace_first :: "string \<Rightarrow> string \<Rightarrow> string \<Rightarrow> string" where
  "replace_first pat rep [] = (if pat = [] then rep else [])"
| "replace_first pat rep (x # xs) =
     (if prefix pat (x # xs) then rep @ drop (length pat) (x # xs)
      else x # replace_first pat rep xs)"

text \<open>
  \<^verbatim>\<open>String.prototype.replace\<close> with a pattern that carries the flag \<^verbatim>\<open>g\<close>: every match from
  left to right, the search going on behind each. \<open>skip\<close> counts the characters of the
  present match still to drop. The two patterns of the source match no empty text; a
  pattern that does is left alone at that place.
\<close>

fun replace_all :: "regex \<Rightarrow> string \<Rightarrow> nat \<Rightarrow> string \<Rightarrow> string" where
  "replace_all r rep skip [] = []"
| "replace_all r rep (Suc n) (x # xs) = replace_all r rep n xs"
| "replace_all r rep 0 (x # xs) =
     (case m_seq r (x # xs) of
        None \<Rightarrow> x # replace_all r rep 0 xs
      | Some (caps, rest) \<Rightarrow>
          if length rest \<le> length xs
          then rep @ replace_all r rep (length xs - length rest) xs
          else x # replace_all r rep 0 xs)"

text \<open>
  \<^verbatim>\<open>data.logs\<close> is an array of lines. Where the source reads it as a string
  (\<^verbatim>\<open>exec(data.logs)\<close>, \<^verbatim>\<open>data.logs + "\n"\<close>) JavaScript joins its elements with commas.
\<close>

fun join_comma :: "string list \<Rightarrow> string" where
  "join_comma [] = []"
| "join_comma [x] = x"
| "join_comma (x # y # ys) = x @ '','' @ join_comma (y # ys)"

text \<open>
  \<^verbatim>\<open>self.isMarlinFirmware\<close> is a Knockout observable with the subscription of lines 86 to 88:
  writing a value that differs from the present one runs \<^verbatim>\<open>self.loadEeprom()\<close>.
\<close>

definition set_isMarlinFirmware :: "bool \<Rightarrow> vm \<Rightarrow> vm" where
  "set_isMarlinFirmware b v =
     (if isMarlinFirmware v = b then v else loadEeprom (v\<lparr>isMarlinFirmware := b\<rparr>))"

definition detectFirmware :: "string \<Rightarrow> vm \<Rightarrow> vm" where   \<comment> \<open>lines 1307 to 1322\<close>
  "detectFirmware line v =
     (let v1 =
        (case exec firmwareRegEx line of
           None \<Rightarrow> v
         | Some m \<Rightarrow>
            (let name = js_str (at m 1) @ '' '' @ js_str (at m 2);
                 v' = v\<lparr> FIRMWARE_NAME := name,
                         FIRMWARE_INFO := replace_first ''Recv: '' [] line,
                         patterns := setRegExVars name (patterns v) \<rparr>
             in if exec marlinRegEx (js_str (at m 0)) \<noteq> None
                then set_isMarlinFirmware True v' else v'))
      in (case exec firmwareCapRegEx line of
            None \<Rightarrow> v1
          | Some m \<Rightarrow>
             v1\<lparr>FIRMWARE_INFO :=
                  FIRMWARE_INFO v1 @ [CHR 0x0A] @ replace_first ''Recv: Cap:'' [] line\<rparr>))"

fun detectLines :: "string list \<Rightarrow> vm \<Rightarrow> vm" where
  "detectLines [] v = v"
| "detectLines (line # lines) v = detectLines lines (detectFirmware line v)"

text \<open>
  The text of the backup file (lines 1338 and 1339): \<^verbatim>\<open>replace(/Recv/gi, "\nRecv")\<close>, then
  \<^verbatim>\<open>replace(/,\n/gi, "\n")\<close>.
\<close>

definition normalizeBackup :: "string \<Rightarrow> string" where
  "normalizeBackup cfg =
     replace_all (lit_i [CHR '','', CHR 0x0A]) [CHR 0x0A] 0
       (replace_all (lit_i ''Recv'') (CHR 0x0A # ''Recv'') 0 cfg)"

text \<open>
  The backup session of lines 1327 to 1372. The file offered for download is recorded by
  its text; its name comes from the clock and is not modelled.
\<close>

definition backupStep :: "string list \<Rightarrow> vm \<Rightarrow> vm" where
  "backupStep logs v =
     (let v1 = (if exec (eepromM501RegEx (patterns v)) (join_comma logs) \<noteq> None
                then v\<lparr>startBackup := True\<rparr> else v)
      in if execBackup v1 \<and> startBackup v1 then
           (let cfg = backupConfig v1 @ join_comma logs @ [CHR 0x0A];
                v2 = v1\<lparr>backupConfig := cfg\<rparr>
            in if exec (eepromM851RegEx (patterns v2)) cfg \<noteq> None
                  \<or> exec (eepromOKRegEx (patterns v2)) cfg \<noteq> None
               then v2\<lparr> execBackup := False,
                        backupConfig := normalizeBackup cfg,
                        downloads := downloads v2 @ [normalizeBackup cfg],
                        timers := Suc (timers v2) \<rparr>
               else v2)
         else v1)"

definition fromCurrentData :: "string list \<Rightarrow> vm \<Rightarrow> vm" where
  "fromCurrentData logs v =
     (if \<not> isMarlinFirmware v then detectLines logs v
      else parseLines logs False (backupStep logs v))"

section \<open>The view model after its constructor\<close>

text \<open>
  Before the constructor calls \<^verbatim>\<open>self.setRegExVars('Marlin bugfix-2.0.x')\<close> (line 83) no
  pattern is assigned; the call assigns all nineteen, so the value here before it does not
  show.
\<close>

definition no_patterns :: grammar where
  "no_patterns =
     \<lparr> eepromM501RegEx = [], eepromOKRegEx = [], eepromM92RegEx = [], eepromM200RegEx = [],
       eepromM201RegEx = [], eepromM203RegEx = [], eepromM206RegEx = [], eepromM304RegEx = [],
       eepromM420RegEx = [], eepromM851RegEx = [], eepromM665RegEx = [], eepromM666RegEx = [],
       eepromM900RegEx = [], eepromM205RegEx = [], eepromM145S0RegEx = [],
       eepromM145S1RegEx = [], eepromM145S2RegEx = [], eepromM301RegEx = [],
       eepromM204RegEx = [] \<rparr>"

definition initial_vm :: vm where
  "initial_vm =
     \<lparr> execBackup = False, startBackup = False, backupConfig = [], stateControls = True,
       FIRMWARE_NAME = [], FIRMWARE_INFO = [], isMarlinFirmware = False, isPrinting = False,
       patterns = setRegExVars ''Marlin bugfix-2.0.x'' no_patterns,
       eeprom = empty_store, sent = [], timers = 0, downloads = [] \<rparr>"

text \<open>
  The view model once a firmware line has named the firmware \<open>name\<close> and the name is a
  Marlin one: lines 1309, 1312 and 1315 on the constructor's state, the write to
  \<^verbatim>\<open>isMarlinFirmware\<close> starting the first load. The text kept for display in
  \<^verbatim>\<open>FIRMWARE_INFO\<close> is left empty.
\<close>

definition vm_of_firmware :: "string \<Rightarrow> vm" where
  "vm_of_firmware name =
     set_isMarlinFirmware True
       (initial_vm\<lparr> FIRMWARE_NAME := name,
                    patterns := setRegExVars name (patterns initial_vm) \<rparr>)"

text \<open>
  A view model under \<^verbatim>\<open>Marlin 1.1.8\<close> with three entries loaded, two of them edited since:
  the probe offset from -1.20 to -1.25 and the X steps from 80.00 to 81.50.
\<close>

definition edited_vm :: vm where
  "edited_vm =
     (vm_of_firmware ''Marlin 1.1.8'')
       \<lparr>eeprom := empty_store
          \<lparr>eepromData1 :=
             [\<lparr>dataType = ''M851 Z'', label = ''Z-Probe Offset'', origValue = Some ''-1.20'',
               val = Some ''-1.25'', unit = ''mm'', description = ''''\<rparr>],
           eepromDataSteps :=
             [\<lparr>dataType = ''M92 X'', label = ''X axis'', origValue = Some ''80.00'',
               val = Some ''81.50'', unit = ''mm'', description = ''steps per unit''\<rparr>,
              \<lparr>dataType = ''M92 Y'', label = ''Y axis'', origValue = Some ''80.00'',
               val = Some ''80.00'', unit = ''mm'', description = ''steps per unit''\<rparr>]\<rparr>\<rparr>"

section \<open>Vocabulary of the statements\<close>

text \<open>All entries of all sections, in the order of \<^verbatim>\<open>saveEeprom\<close>.\<close>

definition all_fields :: "store \<Rightarrow> eeprom_field list" where
  "all_fields s = concat (map (\<lambda>i. sec i s) save_order)"

text \<open>
  \<open>pushes Q f\<close>: the step \<open>f\<close> leaves the entries of every section in place and adds, at
  the end, only entries that satisfy \<open>Q\<close>.
\<close>

definition pushes :: "(eeprom_field \<Rightarrow> bool) \<Rightarrow> (store \<Rightarrow> store) \<Rightarrow> bool" where
  "pushes Q f = (\<forall>s i. \<exists>d. sec i (f s) = sec i s @ d \<and> list_all Q d)"

text \<open>
  \<open>matched r line f\<close>: the entries \<open>f m\<close> built from the match array \<open>m\<close> when the pattern
  \<open>r\<close> matches the line, and none when it does not.
\<close>

definition matched ::
  "regex \<Rightarrow> string \<Rightarrow> (string list \<Rightarrow> eeprom_field list) \<Rightarrow> eeprom_field list" where
  "matched r line f = (case exec r line of None \<Rightarrow> [] | Some m \<Rightarrow> f m)"

text \<open>
  The choice that \<^verbatim>\<open>eepromFieldParse\<close> makes on \<^verbatim>\<open>firmware_name()\<close> (lines 461, 700, 932 and
  1043), in its order: \<open>a\<close> under a stable or bugfix name, \<open>b\<close> under the name of a release
  candidate, \<open>c\<close> under a legacy name, and \<open>a\<close> again under any other name.
\<close>

definition by_name :: "string \<Rightarrow> 'a \<Rightarrow> 'a \<Rightarrow> 'a \<Rightarrow> 'a" where
  "by_name name a b c =
     (if name \<in> set stable_names then a
      else if name \<in> set rc_names then b
      else if name \<in> set legacy_names then c
      else a)"

text \<open>
  \<open>appends_twice line rb v i d\<close>: parsing \<open>line\<close> once appends the entries \<open>d\<close> to section
  \<open>i\<close>, and parsing it a second time appends \<open>d\<close> again behind them.
\<close>

definition appends_twice ::
  "string \<Rightarrow> bool \<Rightarrow> vm \<Rightarrow> section_name \<Rightarrow> eeprom_field list \<Rightarrow> bool" where
  "appends_twice line rb v i d =
     (sec i (eeprom (eepromFieldParse line rb v)) = sec i (eeprom v) @ d \<and>
      sec i (eeprom (eepromFieldParse line rb (eepromFieldParse line rb v))) =
        sec i (eeprom v) @ d @ d)"

text \<open>The command that \<^verbatim>\<open>saveEeprom\<close> sends for an entry, and the entry after it.\<close>

definition save_command :: "eeprom_field \<Rightarrow> string" where
  "save_command f = dataType f @ js_str (val f)"

definition saved :: "eeprom_field \<Rightarrow> eeprom_field" where
  "saved f = f\<lparr>origValue := val f\<rparr>"

text \<open>The items of a pattern that are capture groups.\<close>

fun is_group :: "re_item \<Rightarrow> bool" where
  "is_group (G a) = True"
| "is_group (U a) = False"

section \<open>What a block does to the sections\<close>

lemmas block_defs = parseM92_def parseM203_def parseM201_def parseM851_def parseM206_def
  parseM666_def parseM665_def parseM900_def parseM200_def parseM304_def parseM205_def
  parseM205_legacy_def parseM204_def parseM204_legacy_def parseM301_def parseM301_rc_def
  parseM145S0_def parseM145S1_def parseM145S2_def parseM420_def

lemma block_frames:
  "i \<noteq> Steps \<Longrightarrow> sec i (parseM92 g line rb s) = sec i s"
  "i \<noteq> FRates \<Longrightarrow> sec i (parseM203 g line rb s) = sec i s"
  "i \<noteq> MaxAccel \<Longrightarrow> sec i (parseM201 g line rb s) = sec i s"
  "i \<noteq> Data1 \<Longrightarrow> sec i (parseM851 g line rb s) = sec i s"
  "i \<noteq> Homing \<Longrightarrow> sec i (parseM206 g line rb s) = sec i s"
  "i \<noteq> Endstop \<Longrightarrow> sec i (parseM666 g line rb s) = sec i s"
  "i \<noteq> Delta1 \<Longrightarrow> i \<noteq> Delta2 \<Longrightarrow> sec i (parseM665 g line rb s) = sec i s"
  "i \<noteq> Linear \<Longrightarrow> sec i (parseM900 g line rb s) = sec i s"
  "i \<noteq> Filament \<Longrightarrow> sec i (parseM200 g line rb s) = sec i s"
  "i \<noteq> PIDB \<Longrightarrow> sec i (parseM304 g line rb s) = sec i s"
  "i \<noteq> Data1 \<Longrightarrow> i \<noteq> Data2 \<Longrightarrow> sec i (parseM205 g line rb s) = sec i s"
  "i \<noteq> Data1 \<Longrightarrow> i \<noteq> Data2 \<Longrightarrow> sec i (parseM205_legacy g line rb s) = sec i s"
  "i \<noteq> Accel \<Longrightarrow> sec i (parseM204 g line rb s) = sec i s"
  "i \<noteq> Accel \<Longrightarrow> sec i (parseM204_legacy g line rb s) = sec i s"
  "i \<noteq> PID \<Longrightarrow> sec i (parseM301 g line rb s) = sec i s"
  "i \<noteq> PID \<Longrightarrow> sec i (parseM301_rc g line rb s) = sec i s"
  "i \<noteq> MaterialHS0 \<Longrightarrow> sec i (parseM145S0 tag g line rb s) = sec i s"
  "i \<noteq> MaterialHS1 \<Longrightarrow> sec i (parseM145S1 tag g line rb s) = sec i s"
  "i \<noteq> MaterialHS2 \<Longrightarrow> sec i (parseM145S2 tag g line rb s) = sec i s"
  "i \<noteq> Level \<Longrightarrow> sec i (parseM420 g line rb s) = sec i s"
  by (cases i; simp add: block_defs Let_def split: option.splits)+

lemma pushesI: "(\<And>s i. \<exists>d. sec i (f s) = sec i s @ d \<and> list_all Q d) \<Longrightarrow> pushes Q f"
  by (simp add: pushes_def)

lemma pushes_orig:
  "pushes (\<lambda>f. origValue f = (if rb then Some [] else val f)) (parseM92 g line rb)"
  "pushes (\<lambda>f. origValue f = (if rb then Some [] else val f)) (parseM203 g line rb)"
  "pushes (\<lambda>f. origValue f = (if rb then Some [] else val f)) (parseM201 g line rb)"
  "pushes (\<lambda>f. origValue f = (if rb then Some [] else val f)) (parseM851 g line rb)"
  "pushes (\<lambda>f. origValue f = (if rb then Some [] else val f)) (parseM206 g line rb)"
  "pushes (\<lambda>f. origValue f = (if rb then Some [] else val f)) (parseM666 g line rb)"
  "pushes (\<lambda>f. origValue f = (if rb then Some [] else val f)) (parseM665 g line rb)"
  "pushes (\<lambda>f. origValue f = (if rb then Some [] else val f)) (parseM900 g line rb)"
  "pushes (\<lambda>f. origValue f = (if rb then Some [] else val f)) (parseM200 g line rb)"
  "pushes (\<lambda>f. origValue f = (if rb then Some [] else val f)) (parseM304 g line rb)"
  "pushes (\<lambda>f. origValue f = (if rb then Some [] else val f)) (parseM205 g line rb)"
  "pushes (\<lambda>f. origValue f = (if rb then Some [] else val f)) (parseM205_legacy g line rb)"
  "pushes (\<lambda>f. origValue f = (if rb then Some [] else val f)) (parseM204 g line rb)"
  "pushes (\<lambda>f. origValue f = (if rb then Some [] else val f)) (parseM204_legacy g line rb)"
  "pushes (\<lambda>f. origValue f = (if rb then Some [] else val f)) (parseM301 g line rb)"
  "pushes (\<lambda>f. origValue f = (if rb then Some [] else val f)) (parseM301_rc g line rb)"
  "pushes (\<lambda>f. origValue f = (if rb then Some [] else val f)) (parseM145S0 tag g line rb)"
  "pushes (\<lambda>f. origValue f = (if rb then Some [] else val f)) (parseM145S1 tag g line rb)"
  "pushes (\<lambda>f. origValue f = (if rb then Some [] else val f)) (parseM145S2 tag g line rb)"
  "pushes (\<lambda>f. origValue f = (if rb then Some [] else val f)) (parseM420 g line rb)"
  by (rule pushesI, case_tac i;
      simp add: block_defs Let_def material_fields_def fld_def split: option.splits)+

lemma pushes_no_y_jerk:
  "pushes (\<lambda>f. dataType f \<noteq> ''M205 Y'') (parseM92 g line rb)"
  "pushes (\<lambda>f. dataType f \<noteq> ''M205 Y'') (parseM203 g line rb)"
  "pushes (\<lambda>f. dataType f \<noteq> ''M205 Y'') (parseM201 g line rb)"
  "pushes (\<lambda>f. dataType f \<noteq> ''M205 Y'') (parseM851 g line rb)"
  "pushes (\<lambda>f. dataType f \<noteq> ''M205 Y'') (parseM206 g line rb)"
  "pushes (\<lambda>f. dataType f \<noteq> ''M205 Y'') (parseM666 g line rb)"
  "pushes (\<lambda>f. dataType f \<noteq> ''M205 Y'') (parseM665 g line rb)"
  "pushes (\<lambda>f. dataType f \<noteq> ''M205 Y'') (parseM900 g line rb)"
  "pushes (\<lambda>f. dataType f \<noteq> ''M205 Y'') (parseM200 g line rb)"
  "pushes (\<lambda>f. dataType f \<noteq> ''M205 Y'') (parseM304 g line rb)"
  "pushes (\<lambda>f. dataType f \<noteq> ''M205 Y'') (parseM205_legacy g line rb)"
  "pushes (\<lambda>f. dataType f \<noteq> ''M205 Y'') (parseM204_legacy g line rb)"
  "pushes (\<lambda>f. dataType f \<noteq> ''M205 Y'') (parseM301 g line rb)"
  by (rule pushesI, case_tac i; simp add: block_defs fld_def split: option.splits)+

lemma pushes_comp:
  assumes "pushes Q f" and "pushes Q h"
  shows "pushes Q (\<lambda>s. h (f s))"
proof (rule pushesI)
  fix s i
  from assms(1) obtain d1 where d1: "sec i (f s) = sec i s @ d1" "list_all Q d1"
    unfolding pushes_def by blast
  from assms(2) obtain d2 where d2: "sec i (h (f s)) = sec i (f s) @ d2" "list_all Q d2"
    unfolding pushes_def by blast
  from d1 d2 have "sec i (h (f s)) = sec i s @ (d1 @ d2) \<and> list_all Q (d1 @ d2)"
    by simp
  then show "\<exists>d. sec i (h (f s)) = sec i s @ d \<and> list_all Q d" ..
qed

lemma pushes_run_blocks:
  "list_all (\<lambda>b. pushes Q (b g line rb)) bs \<Longrightarrow> pushes Q (run_blocks bs g line rb)"
proof (induction bs)
  case Nil
  show ?case by (rule pushesI) simp
next
  case (Cons b bs)
  then have "pushes Q (b g line rb)" and "pushes Q (run_blocks bs g line rb)" by simp_all
  then have "pushes Q (\<lambda>s. run_blocks bs g line rb (b g line rb s))" by (rule pushes_comp)
  then show ?case by (simp add: pushes_def)
qed

lemmas block_lists = common_blocks_def version_blocks_def latest_blocks_def rc_blocks_def
  legacy_blocks_def

lemma pushes_orig_all:
  "pushes (\<lambda>f. origValue f = (if rb then Some [] else val f))
     (run_blocks (common_blocks @ version_blocks name) g line rb)"
  by (rule pushes_run_blocks) (simp add: block_lists pushes_orig)

lemma pushes_no_y_jerk_legacy:
  "pushes (\<lambda>f. dataType f \<noteq> ''M205 Y'')
     (run_blocks (common_blocks @ legacy_blocks) g line rb)"
  by (rule pushes_run_blocks) (simp add: block_lists pushes_no_y_jerk)

section \<open>Patterns and matches\<close>

lemmas version_lists = bugfix_version_def stable_versions_def rc_versions_def legacy_versions_def
text \<open>
  A match on a given line is computed once, in a lemma of its own, by \<open>regex_defs\<close>;
  elsewhere \<open>exec\<close> stays folded.
\<close>

declare exec.simps [simp del]

lemmas regex_defs = exec.simps lit_def cap_chr_def cap_any_def nondigit_def digits_def
  line_terminators_def

lemma setRegExVars_all_versions:
  "eepromM501RegEx (setRegExVars version g) = lit ''M501''"
  "eepromOKRegEx (setRegExVars version g) = lit ''ok''"
  "eepromM92RegEx (setRegExVars version g) = lit ''M92 '' @ slots ''XYZE''"
  "eepromM200RegEx (setRegExVars version g) = lit ''M200 '' @ slots ''D''"
  "eepromM851RegEx (setRegExVars version g) = lit ''M851 '' @ slots ''Z''"
  "eepromM420RegEx (setRegExVars version g) = lit ''M420 '' @
          [cap_chr CHR ''S'', G (Star (OneOf ''01'')), U (Star (NoneOf digits)),
           G (Star (OneOf ''Z'')), cap_any]"
  by (simp_all add: setRegExVars_def setAllVersions_def Let_def)

lemma exec_M92_example:
  "exec (lit ''M92 '' @ slots ''XYZE'') ''M92 X80.00 Y80.00 Z400.00 E500.00'' =
     Some [''M92 X80.00 Y80.00 Z400.00 E500.00'',
           ''X'', ''80.00'', ''Y'', ''80.00'', ''Z'', ''400.00'', ''E'', ''500.00'']"
  by (simp add: regex_defs)

section \<open>What eepromFieldParse does to one section\<close>

lemma eepromFieldParse_frame:
  "eeprom (eepromFieldParse line rb v) =
     run_blocks (common_blocks @ version_blocks (FIRMWARE_NAME v)) (patterns v) line rb (eeprom v)"
  "timers (eepromFieldParse line rb v) =
     (if exec (eepromOKRegEx (patterns v)) line \<noteq> None then Suc (timers v) else timers v)"
  "patterns (eepromFieldParse line rb v) = patterns v"
  "FIRMWARE_NAME (eepromFieldParse line rb v) = FIRMWARE_NAME v"
  "FIRMWARE_INFO (eepromFieldParse line rb v) = FIRMWARE_INFO v"
  "isMarlinFirmware (eepromFieldParse line rb v) = isMarlinFirmware v"
  "isPrinting (eepromFieldParse line rb v) = isPrinting v"
  "execBackup (eepromFieldParse line rb v) = execBackup v"
  "startBackup (eepromFieldParse line rb v) = startBackup v"
  "backupConfig (eepromFieldParse line rb v) = backupConfig v"
  "stateControls (eepromFieldParse line rb v) = stateControls v"
  "sent (eepromFieldParse line rb v) = sent v"
  "downloads (eepromFieldParse line rb v) = downloads v"
  by (simp_all add: eepromFieldParse_def Let_def)

lemma steps_M92:
  "sec Steps (parseM92 g line rb s) = sec Steps s @
     (case exec (eepromM92RegEx g) line of
        None \<Rightarrow> []
      | Some m \<Rightarrow>
          [fld rb m ''M92 X'' ''X axis'' 2 ''mm'' ''steps per unit'',
           fld rb m ''M92 Y'' ''Y axis'' 4 ''mm'' ''steps per unit'',
           fld rb m ''M92 Z'' ''Z axis'' 6 ''mm'' ''steps per unit'',
           fld rb m ''M92 E'' ''Extruder'' 8 ''mm'' ''steps per unit''])"
  by (simp add: parseM92_def split: option.splits)

lemma steps_of_blocks:
  "sec Steps (run_blocks (common_blocks @ version_blocks name) g line rb s) = sec Steps s @
     (case exec (eepromM92RegEx g) line of
        None \<Rightarrow> []
      | Some m \<Rightarrow>
          [fld rb m ''M92 X'' ''X axis'' 2 ''mm'' ''steps per unit'',
           fld rb m ''M92 Y'' ''Y axis'' 4 ''mm'' ''steps per unit'',
           fld rb m ''M92 Z'' ''Z axis'' 6 ''mm'' ''steps per unit'',
           fld rb m ''M92 E'' ''Extruder'' 8 ''mm'' ''steps per unit''])"
  by (simp add: block_lists block_frames steps_M92 del: sec.simps)

lemma level_M420:
  "sec Level (parseM420 g line rb s) = sec Level s @
     (case exec (eepromM420RegEx g) line of
        None \<Rightarrow> []
      | Some m \<Rightarrow>
          if 3 \<le> length m
          then [fld rb m ''M420 S'' ''Auto Bed Leveling'' 2 ''0/1'' '''',
                fld rb m ''M420 Z'' ''Fade height'' 4 ''mm'' '''']
          else [fld rb m ''M420 S'' ''Auto Bed Leveling'' 2 ''0/1'' ''''])"
  by (simp add: parseM420_def split: option.splits)

lemma level_of_blocks:
  "sec Level (run_blocks (common_blocks @ latest_blocks) g line rb s) = sec Level s @
     (case exec (eepromM420RegEx g) line of
        None \<Rightarrow> []
      | Some m \<Rightarrow>
          if 3 \<le> length m
          then [fld rb m ''M420 S'' ''Auto Bed Leveling'' 2 ''0/1'' '''',
                fld rb m ''M420 Z'' ''Fade height'' 4 ''mm'' '''']
          else [fld rb m ''M420 S'' ''Auto Bed Leveling'' 2 ''0/1'' ''''])"
  by (simp add: block_lists block_frames level_M420 del: sec.simps)

lemma filament_M200:
  "sec Filament (parseM200 g line rb s) =
     (case exec (eepromM200RegEx g) line of
        None \<Rightarrow> sec Filament s
      | Some m \<Rightarrow>
          if sec Filament s = [] then [fld rb m ''M200 D'' ''Diameter'' 2 ''mm'' '''']
          else sec Filament s)"
  by (simp add: parseM200_def split: option.splits)

lemma filament_of_blocks:
  "sec Filament (run_blocks (common_blocks @ version_blocks name) g line rb s) =
     (case exec (eepromM200RegEx g) line of
        None \<Rightarrow> sec Filament s
      | Some m \<Rightarrow>
          if sec Filament s = [] then [fld rb m ''M200 D'' ''Diameter'' 2 ''mm'' '''']
          else sec Filament s)"
  by (simp add: block_lists block_frames filament_M200 del: sec.simps cong: option.case_cong if_cong)

lemma version_blocks_legacy:
  assumes "name \<in> set legacy_names"
  shows "version_blocks name = legacy_blocks"
proof -
  from assms have "name = ''Marlin 1.0.2+'' \<or> name = ''Marlin V1.0.2;'' \<or>
      name = ''Marlin 1.0.2'' \<or> name = ''Marlin V1;''"
    by (simp add: legacy_names_def)
  then have "name \<notin> set stable_names \<and> name \<notin> set rc_names"
    by (elim disjE) (simp_all add: stable_names_def rc_names_def)
  with assms show ?thesis by (simp add: version_blocks_def)
qed

lemma version_blocks_stable:
  "name \<in> set stable_names \<Longrightarrow> version_blocks name = latest_blocks"
  by (simp add: version_blocks_def)

lemma version_blocks_other:
  "name \<notin> set rc_names \<Longrightarrow> name \<notin> set legacy_names \<Longrightarrow> version_blocks name = latest_blocks"
  by (simp add: version_blocks_def)

section \<open>What a block appends to its sections\<close>

lemma block_effects:
  "sec Steps (parseM92 g line rb s) = sec Steps s @
     matched (eepromM92RegEx g) line (\<lambda>m.
       [fld rb m ''M92 X'' ''X axis'' 2 ''mm'' ''steps per unit'',
        fld rb m ''M92 Y'' ''Y axis'' 4 ''mm'' ''steps per unit'',
        fld rb m ''M92 Z'' ''Z axis'' 6 ''mm'' ''steps per unit'',
        fld rb m ''M92 E'' ''Extruder'' 8 ''mm'' ''steps per unit''])"
  "sec FRates (parseM203 g line rb s) = sec FRates s @
     matched (eepromM203RegEx g) line (\<lambda>m.
       [fld rb m ''M203 X'' ''X axis'' 2 ''mm'' ''rate per unit'',
        fld rb m ''M203 Y'' ''Y axis'' 4 ''mm'' ''rate per unit'',
        fld rb m ''M203 Z'' ''Z axis'' 6 ''mm'' ''rate per unit'',
        fld rb m ''M203 E'' ''Extruder'' 8 ''mm'' ''rate per unit''])"
  "sec MaxAccel (parseM201 g line rb s) = sec MaxAccel s @
     matched (eepromM201RegEx g) line (\<lambda>m.
       [fld rb m ''M201 X'' ''X axis'' 2 ''mm/s2'' '''',
        fld rb m ''M201 Y'' ''Y axis'' 4 ''mm/s2'' '''',
        fld rb m ''M201 Z'' ''Z axis'' 6 ''mm/s2'' '''',
        fld rb m ''M201 E'' ''Extruder'' 8 ''mm/s2'' ''''])"
  "sec Data1 (parseM851 g line rb s) = sec Data1 s @
     matched (eepromM851RegEx g) line (\<lambda>m.
       [fld rb m ''M851 Z'' ''Z-Probe Offset'' 2 ''mm'' ''''])"
  "sec Homing (parseM206 g line rb s) = sec Homing s @
     matched (eepromM206RegEx g) line (\<lambda>m.
       [fld rb m ''M206 X'' ''X axis'' 2 ''mm'' '''',
        fld rb m ''M206 Y'' ''Y axis'' 4 ''mm'' '''',
        fld rb m ''M206 Z'' ''Z axis'' 6 ''mm'' ''''])"
  "sec Endstop (parseM666 g line rb s) = sec Endstop s @
     matched (eepromM666RegEx g) line (\<lambda>m.
       [fld rb m ''M666 X'' ''X axis'' 2 ''mm'' '''',
        fld rb m ''M666 Y'' ''Y axis'' 4 ''mm'' '''',
        fld rb m ''M666 Z'' ''Z axis'' 6 ''mm'' ''''])"
  "sec Delta1 (parseM665 g line rb s) = sec Delta1 s @
     matched (eepromM665RegEx g) line (\<lambda>m.
       [fld rb m ''M665 L'' ''Diag Rod'' 2 ''mm'' '''',
        fld rb m ''M665 R'' ''Radius'' 4 ''mm'' '''',
        fld rb m ''M665 S'' ''Segments'' 6 ''s'' ''''])"
  "sec Delta2 (parseM665 g line rb s) = sec Delta2 s @
     matched (eepromM665RegEx g) line (\<lambda>m.
       [fld rb m ''M665 A'' ''Diag A'' 8 ''mm'' '''',
        fld rb m ''M665 B'' ''Diag B'' 10 ''mm'' '''',
        fld rb m ''M665 C'' ''Diag C'' 12 ''mm'' ''''])"
  "sec Linear (parseM900 g line rb s) = sec Linear s @
     matched (eepromM900RegEx g) line (\<lambda>m.
       [fld rb m ''M900 K'' ''Linear Advance K'' 2 ''mm'' '''',
        fld rb m ''M900 R'' ''Linear Ratio'' 4 ''mm'' ''''])"
  "sec PIDB (parseM304 g line rb s) = sec PIDB s @
     matched (eepromM304RegEx g) line (\<lambda>m.
       [fld rb m ''M304 P'' ''Bed Kp'' 2 ''term'' '''',
        fld rb m ''M304 I'' ''Ki'' 4 ''term'' '''',
        fld rb m ''M304 D'' ''Kd'' 6 ''term'' ''''])"
  "sec Data1 (parseM205 g line rb s) = sec Data1 s @
     matched (eepromM205RegEx g) line (\<lambda>m.
       [fld rb m ''M205 S'' ''Min feedrate'' 2 ''mm/s'' '''',
        fld rb m ''M205 T'' ''Min travel'' 4 ''mm/s'' '''',
        fld rb m ''M205 B'' ''Min segment'' 6 ''mm/s'' ''''])"
  "sec Data2 (parseM205 g line rb s) = sec Data2 s @
     matched (eepromM205RegEx g) line (\<lambda>m.
       [fld rb m ''M205 X'' ''Max X jerk'' 8 ''mm/s'' '''',
        fld rb m ''M205 Y'' ''Max Y jerk'' 10 ''mm/s'' '''',
        fld rb m ''M205 Z'' ''Max Z jerk'' 12 ''mm/s'' '''',
        fld rb m ''M205 E'' ''Max E jerk'' 14 ''mm/s'' ''''])"
  "sec Data1 (parseM205_legacy g line rb s) = sec Data1 s @
     matched (eepromM205RegEx g) line (\<lambda>m.
       [fld rb m ''M205 S'' ''Min feedrate'' 2 ''mm/s'' '''',
        fld rb m ''M205 T'' ''Min travel'' 4 ''mm/s'' '''',
        fld rb m ''M205 B'' ''Min segment'' 6 ''mm/s'' ''''])"
  "sec Data2 (parseM205_legacy g line rb s) = sec Data2 s @
     matched (eepromM205RegEx g) line (\<lambda>m.
       [fld rb m ''M205 X'' ''Max X jerk'' 8 ''mm/s'' '''',
        fld rb m ''M205 Z'' ''Max Z jerk'' 10 ''mm/s'' '''',
        fld rb m ''M205 E'' ''Max E jerk'' 12 ''mm/s'' ''''])"
  "sec Accel (parseM204 g line rb s) = sec Accel s @
     matched (eepromM204RegEx g) line (\<lambda>m.
       [fld rb m ''M204 P'' ''Printing moves'' 2 ''mm/s2'' '''',
        fld rb m ''M204 R'' ''Retract'' 4 ''mm/s2'' '''',
        fld rb m ''M204 T'' ''Travel'' 6 ''mm/s2'' ''''])"
  "sec Accel (parseM204_legacy g line rb s) = sec Accel s @
     matched (eepromM204RegEx g) line (\<lambda>m.
       [fld rb m ''M204 S'' ''Printing moves'' 2 ''mm/s2'' '''',
        fld rb m ''M204 T'' ''Travel'' 4 ''mm/s2'' ''''])"
  "sec PID (parseM301 g line rb s) = sec PID s @
     matched (eepromM301RegEx g) line (\<lambda>m.
       [fld rb m ''M301 P'' ''Hotend Kp'' 2 ''term'' '''',
        fld rb m ''M301 I'' ''Ki'' 4 ''term'' '''',
        fld rb m ''M301 D'' ''Kd'' 6 ''term'' ''''])"
  "sec PID (parseM301_rc g line rb s) = sec PID s @
     matched (eepromM301RegEx g) line (\<lambda>m.
       [fld rb m ''M301 P'' ''Hotend Kp'' 2 ''term'' '''',
        fld rb m ''M301 I'' ''Ki'' 4 ''term'' '''',
        fld rb m ''M301 D'' ''Kd'' 6 ''term'' '''',
        fld rb m ''M301 C'' ''Kc'' 8 ''term'' '''',
        fld rb m ''M301 L'' ''LPQ'' 10 ''len'' ''''])"
  "sec MaterialHS0 (parseM145S0 tag g line rb s) = sec MaterialHS0 s @
     matched (eepromM145S0RegEx g) line (\<lambda>m. material_fields rb m tag)"
  "sec MaterialHS1 (parseM145S1 tag g line rb s) = sec MaterialHS1 s @
     matched (eepromM145S1RegEx g) line (\<lambda>m. material_fields rb m tag)"
  "sec MaterialHS2 (parseM145S2 tag g line rb s) = sec MaterialHS2 s @
     matched (eepromM145S2RegEx g) line (\<lambda>m. material_fields rb m tag)"
  "sec Level (parseM420 g line rb s) = sec Level s @
     matched (eepromM420RegEx g) line (\<lambda>m.
       if 3 \<le> length m
       then [fld rb m ''M420 S'' ''Auto Bed Leveling'' 2 ''0/1'' '''',
             fld rb m ''M420 Z'' ''Fade height'' 4 ''mm'' '''']
       else [fld rb m ''M420 S'' ''Auto Bed Leveling'' 2 ''0/1'' ''''])"
  by (simp_all add: block_defs matched_def Let_def split: option.splits)

lemma appends_twiceI:
  assumes "\<And>s. sec i (run_blocks (common_blocks @ version_blocks (FIRMWARE_NAME v))
      (patterns v) line rb s) = sec i s @ d"
  shows "appends_twice line rb v i d"
  unfolding appends_twice_def by (simp add: eepromFieldParse_frame assms del: sec.simps)

section \<open>Entries of the whole store\<close>

lemma pushes_mono: "pushes Q f \<Longrightarrow> (\<And>x. Q x \<Longrightarrow> Q' x) \<Longrightarrow> pushes Q' f"
  unfolding pushes_def list_all_iff by blast

lemma pushes_all_fields:
  assumes "pushes Q f" and "list_all Q (all_fields s)"
  shows "list_all Q (all_fields (f s))"
proof -
  have "list_all Q (sec i (f s))" for i
  proof -
    from assms(1) obtain d where d: "sec i (f s) = sec i s @ d" "list_all Q d"
      unfolding pushes_def by blast
    from assms(2) have "list_all Q (sec i s)"
      by (cases i) (simp_all add: all_fields_def save_order_def)
    with d show ?thesis by simp
  qed
  then show ?thesis by (simp add: all_fields_def list_all_iff)
qed

lemma all_fields_empty: "all_fields empty_store = []"
  by (simp add: all_fields_def save_order_def empty_store_def)

lemma parseLines_frame:
  "FIRMWARE_NAME (parseLines lines rb v) = FIRMWARE_NAME v"
  "patterns (parseLines lines rb v) = patterns v"
  "execBackup (parseLines lines rb v) = execBackup v"
  "downloads (parseLines lines rb v) = downloads v"
  "sent (parseLines lines rb v) = sent v"
  by (induction lines arbitrary: v) (simp_all add: eepromFieldParse_frame)

lemma parseLines_all_fields:
  assumes "\<And>line g. pushes Q (run_blocks (common_blocks @ version_blocks name) g line rb)"
  shows "FIRMWARE_NAME v = name \<Longrightarrow> list_all Q (all_fields (eeprom v)) \<Longrightarrow>
         list_all Q (all_fields (eeprom (parseLines lines rb v)))"
proof (induction lines arbitrary: v)
  case Nil
  then show ?case by simp
next
  case (Cons line lines)
  from assms Cons.prems
  have "list_all Q (all_fields (eeprom (eepromFieldParse line rb v)))"
    by (simp add: eepromFieldParse_frame pushes_all_fields)
  with Cons.prems(1) show ?case by (simp add: Cons.IH eepromFieldParse_frame)
qed

lemma filament_at_most_one:
  "length (sec Filament (eeprom v)) \<le> 1 \<Longrightarrow>
   length (sec Filament (eeprom (parseLines lines rb v))) \<le> 1"
proof (induction lines arbitrary: v)
  case Nil
  then show ?case by simp
next
  case (Cons line lines)
  have "length (sec Filament (eeprom (eepromFieldParse line rb v))) \<le> 1"
    using Cons.prems
      filament_of_blocks[of "FIRMWARE_NAME v" "patterns v" line rb "eeprom v"]
    by (simp add: eepromFieldParse_frame split: option.splits if_splits del: sec.simps)
  then have "length (sec Filament (eeprom (parseLines lines rb (eepromFieldParse line rb v)))) \<le> 1"
    by (rule Cons.IH)
  then show ?case by simp
qed

lemma handleFileSelect_last:
  "handleFileSelect (files @ [result]) v = fileOnload result (handleFileSelect files v)"
  by (induction files arbitrary: v) simp_all

section \<open>Matches on given lines\<close>

lemma exec_M420_enable_only:
  "exec (lit ''M420 '' @
          [cap_chr CHR ''S'', G (Star (OneOf ''01'')), U (Star (NoneOf digits)),
           G (Star (OneOf ''Z'')), cap_any]) ''Recv: echo:  M420 S1'' =
     Some [''M420 S1'', ''S'', ''1'', [], []]"
  by (simp add: regex_defs)

lemma exec_M420_both:
  "exec (lit ''M420 '' @
          [cap_chr CHR ''S'', G (Star (OneOf ''01'')), U (Star (NoneOf digits)),
           G (Star (OneOf ''Z'')), cap_any]) ''Recv: echo:  M420 S1 Z10.00'' =
     Some [''M420 S1 Z10.00'', ''S'', ''1'', [], ''10.00'']"
  by (simp add: regex_defs)

lemma data2_M205_legacy:
  "sec Data2 (parseM205_legacy g line rb s) = sec Data2 s @
     (case exec (eepromM205RegEx g) line of
        None \<Rightarrow> []
      | Some m \<Rightarrow>
          [fld rb m ''M205 X'' ''Max X jerk'' 8 ''mm/s'' '''',
           fld rb m ''M205 Z'' ''Max Z jerk'' 10 ''mm/s'' '''',
           fld rb m ''M205 E'' ''Max E jerk'' 12 ''mm/s'' ''''])"
  by (simp add: parseM205_legacy_def split: option.splits)

lemma data2_of_legacy_blocks:
  "sec Data2 (run_blocks (common_blocks @ legacy_blocks) g line rb s) = sec Data2 s @
     (case exec (eepromM205RegEx g) line of
        None \<Rightarrow> []
      | Some m \<Rightarrow>
          [fld rb m ''M205 X'' ''Max X jerk'' 8 ''mm/s'' '''',
           fld rb m ''M205 Z'' ''Max Z jerk'' 10 ''mm/s'' '''',
           fld rb m ''M205 E'' ''Max E jerk'' 12 ''mm/s'' ''''])"
  by (simp add: block_lists block_frames data2_M205_legacy del: sec.simps)

lemma exec_M205_legacy_example:
  "exec (lit ''M205 '' @ slots ''STBXZE'') ''echo:  M205 S0.00 T0.00 B20000 X20.00 Z0.40 E5.00'' =
     Some [''M205 S0.00 T0.00 B20000 X20.00 Z0.40 E5.00'', ''S'', ''0.00'', ''T'', ''0.00'',
           ''B'', ''20000'', ''X'', ''20.00'', ''Z'', ''0.40'', ''E'', ''5.00'']"
  by (simp add: regex_defs)

lemma legacy_M205_pattern:
  "eepromM205RegEx (setRegExVars ''Marlin 1.0.2'' g) = lit ''M205 '' @ slots ''STBXZE''"
  by (simp add: setRegExVars_def setAllVersions_def Let_def version_lists)

lemma exec_M200_example:
  "exec (lit ''M200 '' @ slots ''D'') ''echo:  M200 D1.75'' = Some [''M200 D1.75'', ''D'', ''1.75'']"
  by (simp add: regex_defs)

lemma vm_of_firmware_fields:
  "FIRMWARE_NAME (vm_of_firmware name) = name"
  "patterns (vm_of_firmware name) = setRegExVars name (patterns initial_vm)"
  "eeprom (vm_of_firmware name) = empty_store"
  "isMarlinFirmware (vm_of_firmware name)"
  "timers (vm_of_firmware name) = 0"
  "downloads (vm_of_firmware name) = []"
  "sent (vm_of_firmware name) = [''M504'', ''M501'']"
  "\<not> stateControls (vm_of_firmware name)"
  by (simp_all add: vm_of_firmware_def initial_vm_def set_isMarlinFirmware_def loadEeprom_def
      requestEepromData_def sendCustomCommand_def clearEepromData_def setControls_def)

lemma exec_firmware_line:
  "exec firmwareRegEx ''Recv: FIRMWARE_NAME:Marlin 1.1.8 (Github) SOURCE_CODE_URL:x'' =
     Some [''FIRMWARE_NAME:Marlin 1.1.8'', ''Marlin'', ''1.1.8'']"
  "exec marlinRegEx ''FIRMWARE_NAME:Marlin 1.1.8'' = Some [''Marlin'']"
  "exec firmwareCapRegEx ''Recv: FIRMWARE_NAME:Marlin 1.1.8 (Github) SOURCE_CODE_URL:x'' = None"
  by (simp_all add: firmwareRegEx_def marlinRegEx_def firmwareCapRegEx_def lit_i_def
      case_variants_def js_space_def exec.simps)

text \<open>The state \<open>vm_of_firmware\<close> is the one that the firmware's own line leads to.\<close>

lemma firmware_line_leads_to_vm_of_firmware:
  "fromCurrentData [''Recv: FIRMWARE_NAME:Marlin 1.1.8 (Github) SOURCE_CODE_URL:x''] initial_vm =
     (vm_of_firmware ''Marlin 1.1.8'')
       \<lparr>FIRMWARE_INFO := ''FIRMWARE_NAME:Marlin 1.1.8 (Github) SOURCE_CODE_URL:x''\<rparr>"
proof -
  have i: "\<not> isMarlinFirmware initial_vm" by (simp add: initial_vm_def)
  show ?thesis
    by (simp add: fromCurrentData_def i detectFirmware_def exec_firmware_line Let_def at_def
        js_str_def vm_of_firmware_def set_isMarlinFirmware_def loadEeprom_def
        requestEepromData_def sendCustomCommand_def clearEepromData_def setControls_def
        initial_vm_def)
qed

section \<open>The length of a match array\<close>

lemma greedy_continues:
  "greedy c k acc s = Some (txt, y) \<Longrightarrow> \<exists>s'. k s' = Some y"
proof (induction s arbitrary: acc)
  case Nil
  then show ?case by auto
next
  case (Cons x xs)
  show ?case
  proof (cases "cmatch c x")
    case True
    show ?thesis
    proof (cases "greedy c k (acc @ [x]) xs")
      case None
      with True Cons.prems show ?thesis by auto
    next
      case (Some r)
      with True Cons.prems have "greedy c k (acc @ [x]) xs = Some (txt, y)" by simp
      then show ?thesis by (rule Cons.IH)
    qed
  next
    case False
    with Cons.prems show ?thesis by auto
  qed
qed

lemma m_atom_continues:
  "m_atom a k s = Some (txt, y) \<Longrightarrow> \<exists>s'. k s' = Some y"
  by (cases a; cases s) (auto split: if_splits dest: greedy_continues simp del: greedy.simps)

lemma m_seq_length:
  "m_seq r s = Some (caps, rest) \<Longrightarrow> length caps = length (filter is_group r)"
proof (induction r arbitrary: s caps rest)
  case Nil
  then show ?case by simp
next
  case (Cons it r)
  show ?case
  proof (cases it)
    case (G a)
    with Cons.prems obtain tx cs where
      a: "m_atom a (m_seq r) s = Some (tx, cs, rest)" and c: "caps = tx # cs"
      by auto
    from m_atom_continues[OF a] obtain s' where "m_seq r s' = Some (cs, rest)" ..
    from Cons.IH[OF this] c G show ?thesis by simp
  next
    case (U a)
    with Cons.prems obtain tx where
      a: "m_atom a (m_seq r) s = Some (tx, caps, rest)"
      by auto
    from m_atom_continues[OF a] obtain s' where "m_seq r s' = Some (caps, rest)" ..
    from Cons.IH[OF this] U show ?thesis by simp
  qed
qed

lemma exec_length:
  "exec r s = Some m \<Longrightarrow> length m = Suc (length (filter is_group r))"
proof (induction s)
  case Nil
  then show ?case by (auto simp: exec.simps split: option.splits dest: m_seq_length)
next
  case (Cons x xs)
  then show ?case by (auto simp: exec.simps split: option.splits dest: m_seq_length)
qed

lemma M420_match_length:
  "exec (eepromM420RegEx (setRegExVars version g)) line = Some m \<Longrightarrow> length m = 5"
  by (drule exec_length) (simp add: setRegExVars_all_versions lit_def cap_chr_def cap_any_def)

lemma level_of_other_blocks:
  "sec Level (run_blocks (common_blocks @ rc_blocks) g line rb s) = sec Level s"
  "sec Level (run_blocks (common_blocks @ legacy_blocks) g line rb s) = sec Level s"
  by (simp_all add: block_lists block_frames del: sec.simps)

lemma level_never_one:
  "length (eepromDataLevel (eeprom (eepromFieldParse line rb (v\<lparr>patterns := setRegExVars version g\<rparr>))))
     \<noteq> Suc (length (eepromDataLevel (eeprom v)))"
proof -
  let ?g = "setRegExVars version g"
  have "version_blocks (FIRMWARE_NAME v) = latest_blocks \<or>
        version_blocks (FIRMWARE_NAME v) = rc_blocks \<or>
        version_blocks (FIRMWARE_NAME v) = legacy_blocks"
    by (simp add: version_blocks_def)
  then show ?thesis
  proof (elim disjE)
    assume b: "version_blocks (FIRMWARE_NAME v) = latest_blocks"
    show ?thesis
    proof (cases "exec (eepromM420RegEx ?g) line")
      case None
      with b level_of_blocks[of ?g line rb "eeprom v"] show ?thesis
        by (simp add: eepromFieldParse_frame)
    next
      case (Some m)
      from M420_match_length[OF Some] have "3 \<le> length m" by simp
      with Some b level_of_blocks[of ?g line rb "eeprom v"] show ?thesis
        by (simp add: eepromFieldParse_frame)
    qed
  next
    assume b: "version_blocks (FIRMWARE_NAME v) = rc_blocks"
    with level_of_other_blocks(1)[of ?g line rb "eeprom v"] show ?thesis
      by (simp add: eepromFieldParse_frame)
  next
    assume b: "version_blocks (FIRMWARE_NAME v) = legacy_blocks"
    with level_of_other_blocks(2)[of ?g line rb "eeprom v"] show ?thesis
      by (simp add: eepromFieldParse_frame)
  qed
qed

section \<open>A pattern of literal characters finds a substring\<close>

lemma m_seq_lit:
  "m_seq (lit p) s = (if prefix p s then Some ([], drop (length p) s) else None)"
proof (induction p arbitrary: s)
  case Nil
  then show ?case by (simp add: lit_def)
next
  case (Cons c p)
  have l: "lit (c # p) = U (One (OneOf [c])) # lit p" by (simp add: lit_def)
  show ?case
  proof (cases s)
    case Nil
    then show ?thesis by (simp add: l)
  next
    case (Cons x xs)
    then show ?thesis by (auto simp: l Cons.IH)
  qed
qed

lemma exec_lit_None: "(exec (lit p) s = None) = (\<not> sublist p s)"
proof (induction s)
  case Nil
  then show ?case by (simp add: exec.simps m_seq_lit)
next
  case (Cons x xs)
  then show ?case
    by (simp add: exec.simps m_seq_lit sublist_Cons_right split: option.splits)
qed

lemma exec_lit_Some: "(\<exists>m. exec (lit p) s = Some m) = sublist p s"
  using exec_lit_None[of p s] by (cases "exec (lit p) s") simp_all

lemmas exec_lit = exec_lit_None exec_lit_Some

section \<open>The loops of saveEeprom\<close>

lemma saved_clean: "\<not> js_neq (origValue d) (val d) \<Longrightarrow> saved d = d"
  by (simp add: saved_def js_neq_def)

lemma saveEach_eq:
  "saveEach fs out =
     (map saved fs, out @ map save_command (filter (\<lambda>f. js_neq (origValue f) (val f)) fs))"
proof (induction fs arbitrary: out)
  case Nil
  then show ?case by simp
next
  case (Cons d ds)
  show ?case
  proof (cases "js_neq (origValue d) (val d)")
    case True
    then show ?thesis
      by (simp add: Cons.IH requestSaveDataToEeprom_def save_command_def saved_def)
  next
    case False
    then show ?thesis by (simp add: Cons.IH saved_clean)
  qed
qed

lemma sec_set_sec: "sec j (set_sec i fs s) = (if i = j then fs else sec j s)"
  by (cases i; cases j; simp)

lemma saveSection_frame:
  "sec j (eeprom (saveSection i v)) =
     (if i = j then map saved (sec i (eeprom v)) else sec j (eeprom v))"
  "sent (saveSection i v) =
     sent v @ map save_command (filter (\<lambda>f. js_neq (origValue f) (val f)) (sec i (eeprom v)))"
  "isPrinting (saveSection i v) = isPrinting v"
  "stateControls (saveSection i v) = stateControls v"
  by (simp_all add: saveSection_def saveEach_eq sec_set_sec del: sec.simps set_sec.simps)

lemma saveSections_frame:
  "isPrinting (saveSections is v) = isPrinting v"
  "stateControls (saveSections is v) = stateControls v"
  by (induction "is" arbitrary: v) (simp_all add: saveSection_frame)

lemma saveSections_sec:
  "distinct is \<Longrightarrow>
   sec j (eeprom (saveSections is v)) =
     (if j \<in> set is then map saved (sec j (eeprom v)) else sec j (eeprom v))"
proof (induction "is" arbitrary: v)
  case Nil
  then show ?case by simp
next
  case (Cons i "is")
  then show ?case by (auto simp: saveSection_frame simp del: sec.simps)
qed

lemma saveSections_sent:
  "distinct is \<Longrightarrow>
   sent (saveSections is v) =
     sent v @ concat (map (\<lambda>i. map save_command
        (filter (\<lambda>f. js_neq (origValue f) (val f)) (sec i (eeprom v)))) is)"
proof (induction "is" arbitrary: v)
  case Nil
  then show ?case by simp
next
  case (Cons i "is")
  from Cons.prems have d: "distinct is" and n: "i \<notin> set is" by simp_all
  let ?c = "\<lambda>fs. map save_command (filter (\<lambda>f. js_neq (origValue f) (val f)) fs)"
  have e: "sec j (eeprom (saveSection i v)) = sec j (eeprom v)" if "j \<in> set is" for j
    using that n by (auto simp: saveSection_frame simp del: sec.simps)
  have "map (\<lambda>j. ?c (sec j (eeprom (saveSection i v)))) is =
        map (\<lambda>j. ?c (sec j (eeprom v))) is"
    by (rule map_cong[OF refl]) (simp only: e)
  then have c: "concat (map (\<lambda>j. ?c (sec j (eeprom (saveSection i v)))) is) =
        concat (map (\<lambda>j. ?c (sec j (eeprom v))) is)"
    by (rule arg_cong)
  have "sent (saveSections (i # is) v) = sent (saveSections is (saveSection i v))" by simp
  also have "\<dots> = sent (saveSection i v) @
      concat (map (\<lambda>j. ?c (sec j (eeprom (saveSection i v)))) is)"
    by (rule Cons.IH[OF d])
  also have "\<dots> = sent v @ ?c (sec i (eeprom v)) @ concat (map (\<lambda>j. ?c (sec j (eeprom v))) is)"
    by (simp only: c saveSection_frame(2) append_assoc)
  finally show ?case by simp
qed

lemma distinct_save_order: "distinct save_order"
  by (simp add: save_order_def)

lemma all_sections_in_save_order: "j \<in> set save_order"
  by (cases j) (simp_all add: save_order_def)

lemma save_all_sent:
  "sent (saveSections save_order v) =
     sent v @ map save_command (filter (\<lambda>f. js_neq (origValue f) (val f)) (all_fields (eeprom v)))"
  by (simp add: saveSections_sent[OF distinct_save_order] all_fields_def map_concat
      filter_concat comp_def)

lemma save_all_fields:
  "all_fields (eeprom (saveSections save_order v)) = map saved (all_fields (eeprom v))"
  by (simp add: all_fields_def saveSections_sec[OF distinct_save_order]
      all_sections_in_save_order map_concat comp_def del: sec.simps)

lemma saved_not_dirty: "filter (\<lambda>f. js_neq (origValue f) (val f)) (map saved fs) = []"
  by (induction fs) (simp_all add: saved_def js_neq_def)

lemma loadEeprom_frame:
  "sent (loadEeprom w) = sent w @ (if isPrinting w then [] else [''M504'', ''M501''])"
  "eeprom (loadEeprom w) = empty_store"
  "isPrinting (loadEeprom w) = isPrinting w"
  "\<not> stateControls (loadEeprom w)"
  by (auto simp: loadEeprom_def requestEepromData_def sendCustomCommand_def clearEepromData_def
      setControls_def)

lemma before_load_frame:
  "sent (sendCustomCommand ''M504'' (sendCustomCommand ''M500''
           (saveSections save_order (setControls False v)))) =
     sent v @ map save_command (filter (\<lambda>f. js_neq (origValue f) (val f)) (all_fields (eeprom v)))
       @ [''M500'', ''M504'']"
  "isPrinting (sendCustomCommand ''M504'' (sendCustomCommand ''M500''
           (saveSections save_order (setControls False v)))) = isPrinting v"
  by (simp_all add: sendCustomCommand_def save_all_sent saveSections_frame setControls_def)

lemma backupEeprom_frame:
  "execBackup (backupEeprom w)"
  "backupConfig (backupEeprom w) = []"
  "isMarlinFirmware (backupEeprom w) = isMarlinFirmware w"
  "downloads (backupEeprom w) = downloads w"
  "patterns (backupEeprom w) = patterns w"
  "FIRMWARE_NAME (backupEeprom w) = FIRMWARE_NAME w"
  "eeprom (backupEeprom w) = empty_store"
  by (simp_all add: backupEeprom_def requestEepromData_def sendCustomCommand_def
      clearEepromData_def setControls_def)

lemma patterns_update_same: "patterns w = p \<Longrightarrow> w\<lparr>patterns := p\<rparr> = w"
  by auto

lemma edited_vm_fields:
  "sent edited_vm = [''M504'', ''M501'']"
  "\<not> isPrinting edited_vm"
  "all_fields (eeprom edited_vm) =
     [\<lparr>dataType = ''M851 Z'', label = ''Z-Probe Offset'', origValue = Some ''-1.20'',
       val = Some ''-1.25'', unit = ''mm'', description = ''''\<rparr>,
      \<lparr>dataType = ''M92 X'', label = ''X axis'', origValue = Some ''80.00'',
       val = Some ''81.50'', unit = ''mm'', description = ''steps per unit''\<rparr>,
      \<lparr>dataType = ''M92 Y'', label = ''Y axis'', origValue = Some ''80.00'',
       val = Some ''80.00'', unit = ''mm'', description = ''steps per unit''\<rparr>]"
  by (simp_all add: edited_vm_def all_fields_def save_order_def empty_store_def
      vm_of_firmware_def set_isMarlinFirmware_def loadEeprom_def requestEepromData_def
      sendCustomCommand_def clearEepromData_def setControls_def initial_vm_def)

section \<open>Restore, and the live feed\<close>

lemma version_blocks_rc:
  assumes "name \<in> set rc_names"
  shows "version_blocks name = rc_blocks"
proof -
  from assms have "name = ''Marlin 1.1.0-RC1'' \<or> name = ''Marlin 1.1.0-RC2'' \<or>
      name = ''Marlin 1.1.0-RC3'' \<or> name = ''Marlin 1.1.0-RC4'' \<or> name = ''Marlin 1.1.0-RC5'' \<or>
      name = ''Marlin 1.1.0-RC6'' \<or> name = ''Marlin 1.1.0-RC7''"
    by (simp add: rc_names_def)
  then have "name \<notin> set stable_names"
    by (elim disjE) (simp_all add: stable_names_def)
  with assms show ?thesis by (simp add: version_blocks_def)
qed

lemma data2_of_rc_blocks:
  "sec Data2 (run_blocks (common_blocks @ rc_blocks) g line rb s) = sec Data2 s @
     matched (eepromM205RegEx g) line (\<lambda>m.
       [fld rb m ''M205 X'' ''Max X jerk'' 8 ''mm/s'' '''',
        fld rb m ''M205 Y'' ''Max Y jerk'' 10 ''mm/s'' '''',
        fld rb m ''M205 Z'' ''Max Z jerk'' 12 ''mm/s'' '''',
        fld rb m ''M205 E'' ''Max E jerk'' 14 ''mm/s'' ''''])"
  by (simp add: block_lists block_frames block_effects del: sec.simps)

lemma linear_of_blocks:
  "sec Linear (run_blocks (common_blocks @ version_blocks name) g line rb s) = sec Linear s @
     matched (eepromM900RegEx g) line (\<lambda>m.
       [fld rb m ''M900 K'' ''Linear Advance K'' 2 ''mm'' '''',
        fld rb m ''M900 R'' ''Linear Ratio'' 4 ''mm'' ''''])"
  by (simp add: block_lists block_frames block_effects del: sec.simps)

lemma rc_M205_pattern:
  "eepromM205RegEx (setRegExVars ''Marlin 1.1.0-RC3'' g) = lit ''M205 '' @ slots ''STBXZE''"
  by (simp add: setRegExVars_def setAllVersions_def Let_def version_lists)

lemma bugfix_M900_pattern:
  "eepromM900RegEx (setRegExVars ''Marlin bugfix-2.0.x'' g) =
     lit ''M900 '' @ [cap_chr CHR ''K'', G (Plus (OneOf ''0123456789.'')), cap_any]"
  by (simp add: setRegExVars_def setAllVersions_def Let_def version_lists)

lemma exec_M205_rc_example:
  "exec (lit ''M205 '' @ slots ''STBXZE'')
       ''Recv: echo:  M205 S0.00 T0.00 B20000 X20.00 Z0.40 E5.00'' =
     Some [''M205 S0.00 T0.00 B20000 X20.00 Z0.40 E5.00'', ''S'', ''0.00'', ''T'', ''0.00'',
           ''B'', ''20000'', ''X'', ''20.00'', ''Z'', ''0.40'', ''E'', ''5.00'']"
  by (simp add: regex_defs)

lemma exec_M900_bugfix_example:
  "exec (lit ''M900 '' @ [cap_chr CHR ''K'', G (Plus (OneOf ''0123456789.'')), cap_any])
       ''Recv: echo:  M900 K0.22'' =
     Some [''M900 K0.22'', ''K'', ''0.22'', '''']"
  by (simp add: regex_defs)

lemma restore_one_line:
  "list_all (\<lambda>c. c \<noteq> CHR 0x0A) line \<Longrightarrow>
   eeprom (fileOnload line w) =
     run_blocks (common_blocks @ version_blocks (FIRMWARE_NAME w)) (patterns w) line True
       empty_store"
proof -
  assume "list_all (\<lambda>c. c \<noteq> CHR 0x0A) line"
  then have "split_nl line = [line]"
    by (induction line) simp_all
  then show ?thesis
    by (simp add: fileOnload_def eepromFieldParse_frame clearEepromData_def setControls_def)
qed

lemma detectFirmware_store:
  "list_all Q (all_fields (eeprom w)) \<Longrightarrow>
   list_all Q (all_fields (eeprom (detectFirmware line w)))"
  by (auto simp: detectFirmware_def Let_def set_isMarlinFirmware_def loadEeprom_frame
      all_fields_empty split: option.splits)

lemma detectLines_store:
  "list_all Q (all_fields (eeprom w)) \<Longrightarrow>
   list_all Q (all_fields (eeprom (detectLines lines w)))"
  by (induction lines arbitrary: w) (simp_all add: detectFirmware_store)

lemma backupStep_frame:
  "eeprom (backupStep logs w) = eeprom w"
  "FIRMWARE_NAME (backupStep logs w) = FIRMWARE_NAME w"
  by (simp_all add: backupStep_def Let_def)

lemma live_orig_all:
  "pushes (\<lambda>f. origValue f = val f)
     (run_blocks (common_blocks @ version_blocks name) g line False)"
  using pushes_orig_all[of False name g line] by simp

lemma restore_orig_all:
  "pushes (\<lambda>f. origValue f = Some [])
     (run_blocks (common_blocks @ version_blocks name) g line True)"
  using pushes_orig_all[of True name g line] by simp

lemma fromCurrentData_store:
  assumes "list_all (\<lambda>f. origValue f = val f) (all_fields (eeprom w))"
  shows "list_all (\<lambda>f. origValue f = val f) (all_fields (eeprom (fromCurrentData logs w)))"
proof (cases "isMarlinFirmware w")
  case False
  with assms show ?thesis by (simp add: fromCurrentData_def detectLines_store)
next
  case True
  have "list_all (\<lambda>f. origValue f = val f)
      (all_fields (eeprom (parseLines logs False (backupStep logs w))))"
    by (rule parseLines_all_fields[OF live_orig_all refl]) (simp add: backupStep_frame assms)
  with True show ?thesis by (simp add: fromCurrentData_def)
qed

lemma live_feed_store:
  "list_all (\<lambda>f. origValue f = val f) (all_fields (eeprom w)) \<Longrightarrow>
   list_all (\<lambda>f. origValue f = val f)
     (all_fields (eeprom (foldl (\<lambda>u logs. fromCurrentData logs u) w batches)))"
  by (induction batches arbitrary: w) (simp_all add: fromCurrentData_store)

lemma rc_M145_pattern:
  "eepromM145S0RegEx (setRegExVars ''Marlin 1.1.0-RC7'' g) = lit ''M145 M0 '' @ slots ''HBF''"
  by (simp add: setRegExVars_def setAllVersions_def Let_def version_lists)

lemma exec_M145_rc_example:
  "exec (lit ''M145 M0 '' @ slots ''HBF'') ''Recv: echo:  M145 M0 H180 B70 F255'' =
     Some [''M145 M0 H180 B70 F255'', ''H'', ''180'', ''B'', ''70'', ''F'', ''255'']"
  by (simp add: regex_defs)

section \<open>The claims\<close>

text \<open>
  C1. The loops of \<^verbatim>\<open>saveEeprom\<close> send a command for exactly the entries whose original
  value differs from their value, and set the original value of each of them to its value.
  After the loops no entry differs, so running them again at once sends nothing; and a
  second \<^verbatim>\<open>saveEeprom\<close> right after the first sends no command for an entry, only the
  commit, the recompute and the reload.
\<close>

theorem save_diff_is_dirty_fields_and_second_save_is_empty:
  "sent (saveSections save_order v) =
     sent v @ map (\<lambda>f. dataType f @ js_str (val f))
                (filter (\<lambda>f. origValue f \<noteq> val f) (all_fields (eeprom v)))
   \<and> all_fields (eeprom (saveSections save_order v)) =
       map (\<lambda>f. if origValue f \<noteq> val f then f\<lparr>origValue := val f\<rparr> else f)
         (all_fields (eeprom v))
   \<and> filter (\<lambda>f. origValue f \<noteq> val f) (all_fields (eeprom (saveSections save_order v))) = []
   \<and> sent (saveSections save_order (saveSections save_order v)) =
       sent (saveSections save_order v)
   \<and> sent (saveEeprom (saveEeprom v)) =
       sent (saveEeprom v) @ [''M500'', ''M504'']
         @ (if isPrinting v then [] else [''M504'', ''M501''])"
proof (intro conjI)
  have c: "map save_command (filter (\<lambda>f. js_neq (origValue f) (val f)) fs) =
      map (\<lambda>f. dataType f @ js_str (val f)) (filter (\<lambda>f. origValue f \<noteq> val f) fs)" for fs
    by (simp add: save_command_def js_neq_def)
  have n: "filter (\<lambda>f. origValue f \<noteq> val f) (all_fields (eeprom (saveSections save_order w))) = []"
    for w
    using saved_not_dirty[of "all_fields (eeprom w)"] by (simp add: save_all_fields js_neq_def)
  show "sent (saveSections save_order v) =
     sent v @ map (\<lambda>f. dataType f @ js_str (val f))
                (filter (\<lambda>f. origValue f \<noteq> val f) (all_fields (eeprom v)))"
    by (simp add: save_all_sent c)
  have "saved = (\<lambda>f. if origValue f \<noteq> val f then f\<lparr>origValue := val f\<rparr> else f)"
    by (rule ext) (simp add: saved_def)
  then show "all_fields (eeprom (saveSections save_order v)) =
       map (\<lambda>f. if origValue f \<noteq> val f then f\<lparr>origValue := val f\<rparr> else f)
         (all_fields (eeprom v))"
    by (simp add: save_all_fields)
  show "filter (\<lambda>f. origValue f \<noteq> val f) (all_fields (eeprom (saveSections save_order v))) = []"
    by (rule n)
  show "sent (saveSections save_order (saveSections save_order v)) =
       sent (saveSections save_order v)"
    using n[of v] by (simp add: save_all_sent[of "saveSections save_order v"] c)
  have e: "all_fields (eeprom (saveEeprom v)) = []"
    by (simp add: saveEeprom_def loadEeprom_frame all_fields_empty)
  have p: "isPrinting (saveEeprom v) = isPrinting v"
    by (simp add: saveEeprom_def loadEeprom_frame before_load_frame)
  show "sent (saveEeprom (saveEeprom v)) =
       sent (saveEeprom v) @ [''M500'', ''M504'']
         @ (if isPrinting v then [] else [''M504'', ''M501''])"
    by (simp add: saveEeprom_def[of "saveEeprom v"] loadEeprom_frame before_load_frame c e p)
qed

theorem save_diff_and_second_save_witness:
  "sent (saveSections save_order edited_vm) =
     [''M504'', ''M501'', ''M851 Z-1.25'', ''M92 X81.50'']
   \<and> map origValue (all_fields (eeprom (saveSections save_order edited_vm))) =
       [Some ''-1.25'', Some ''81.50'', Some ''80.00'']
   \<and> sent (saveSections save_order (saveSections save_order edited_vm)) =
       [''M504'', ''M501'', ''M851 Z-1.25'', ''M92 X81.50'']"
  using save_diff_is_dirty_fields_and_second_save_is_empty[of edited_vm]
  by (simp add: edited_vm_fields js_str_def)

text \<open>
  C2. Whatever version the patterns were set for, and whatever the firmware name, the
  line \<^verbatim>\<open>M92 X80.00 Y80.00 Z400.00 E500.00\<close> parsed with \<^verbatim>\<open>restoreBackup = false\<close> appends
  exactly four entries to the steps-per-unit section: \<^verbatim>\<open>M92 X\<close>, \<^verbatim>\<open>M92 Y\<close>, \<^verbatim>\<open>M92 Z\<close>,
  \<^verbatim>\<open>M92 E\<close> in this order, with the values 80.00, 80.00, 400.00 and 500.00, each with the
  unit \<^verbatim>\<open>mm\<close>, the description \<^verbatim>\<open>steps per unit\<close> and its original value equal to its
  value.
\<close>

theorem steps_line_yields_four_fields:
  "eepromDataSteps (eeprom (eepromFieldParse ''M92 X80.00 Y80.00 Z400.00 E500.00'' False
       (v\<lparr>patterns := setRegExVars version g\<rparr>))) =
   eepromDataSteps (eeprom v) @
     [\<lparr>dataType = ''M92 X'', label = ''X axis'', origValue = Some ''80.00'',
       val = Some ''80.00'', unit = ''mm'', description = ''steps per unit''\<rparr>,
      \<lparr>dataType = ''M92 Y'', label = ''Y axis'', origValue = Some ''80.00'',
       val = Some ''80.00'', unit = ''mm'', description = ''steps per unit''\<rparr>,
      \<lparr>dataType = ''M92 Z'', label = ''Z axis'', origValue = Some ''400.00'',
       val = Some ''400.00'', unit = ''mm'', description = ''steps per unit''\<rparr>,
      \<lparr>dataType = ''M92 E'', label = ''Extruder'', origValue = Some ''500.00'',
       val = Some ''500.00'', unit = ''mm'', description = ''steps per unit''\<rparr>]"
proof -
  have m: "exec (eepromM92RegEx (setRegExVars version g)) ''M92 X80.00 Y80.00 Z400.00 E500.00'' =
     Some [''M92 X80.00 Y80.00 Z400.00 E500.00'',
           ''X'', ''80.00'', ''Y'', ''80.00'', ''Z'', ''400.00'', ''E'', ''500.00'']"
    by (simp only: setRegExVars_all_versions exec_M92_example)
  show ?thesis
    using steps_of_blocks[of "FIRMWARE_NAME v" "setRegExVars version g"
      "''M92 X80.00 Y80.00 Z400.00 E500.00''" False "eeprom v"]
    by (simp add: eepromFieldParse_frame m fld_def at_def)
qed

text \<open>
  C3 (the code departs from the claim). The claim: a bed levelling line that carries only
  the enable slot appends exactly one entry to the levelling section, a line that carries
  the fade height too appends two. The code: the pattern has four capture groups, so a
  match array always has five elements and the guard \<^verbatim>\<open>match.length >= 3\<close> never fails. A
  line with the enable slot only, here \<^verbatim>\<open>Recv: echo:  M420 S1\<close> under the firmware
  \<^verbatim>\<open>Marlin 1.1.8\<close>, appends two entries, the second one \<^verbatim>\<open>M420 Z\<close> with the empty string
  as its value. A line with both slots appends two entries. For no line, no firmware name
  and no version of the patterns does the section grow by exactly one entry.
\<close>

theorem bed_leveling_enable_only_pushes_two_fields:
  "eepromDataLevel (eeprom (eepromFieldParse ''Recv: echo:  M420 S1'' False
       (vm_of_firmware ''Marlin 1.1.8''))) =
     [\<lparr>dataType = ''M420 S'', label = ''Auto Bed Leveling'', origValue = Some ''1'',
       val = Some ''1'', unit = ''0/1'', description = ''''\<rparr>,
      \<lparr>dataType = ''M420 Z'', label = ''Fade height'', origValue = Some '''',
       val = Some '''', unit = ''mm'', description = ''''\<rparr>]
   \<and> eepromDataLevel (eeprom (eepromFieldParse ''Recv: echo:  M420 S1 Z10.00'' False
       (vm_of_firmware ''Marlin 1.1.8''))) =
     [\<lparr>dataType = ''M420 S'', label = ''Auto Bed Leveling'', origValue = Some ''1'',
       val = Some ''1'', unit = ''0/1'', description = ''''\<rparr>,
      \<lparr>dataType = ''M420 Z'', label = ''Fade height'', origValue = Some ''10.00'',
       val = Some ''10.00'', unit = ''mm'', description = ''''\<rparr>]
   \<and> length (eepromDataLevel (eeprom (eepromFieldParse line rb
         (v\<lparr>patterns := setRegExVars version g\<rparr>))))
       \<noteq> Suc (length (eepromDataLevel (eeprom v)))"
proof (intro conjI)
  let ?g = "setRegExVars ''Marlin 1.1.8'' (patterns initial_vm)"
  have b: "version_blocks ''Marlin 1.1.8'' = latest_blocks"
    by (rule version_blocks_stable) (simp add: stable_names_def)
  have m1: "exec (eepromM420RegEx ?g) ''Recv: echo:  M420 S1'' =
      Some [''M420 S1'', ''S'', ''1'', [], []]"
    by (simp only: setRegExVars_all_versions exec_M420_enable_only)
  show "eepromDataLevel (eeprom (eepromFieldParse ''Recv: echo:  M420 S1'' False
       (vm_of_firmware ''Marlin 1.1.8''))) =
     [\<lparr>dataType = ''M420 S'', label = ''Auto Bed Leveling'', origValue = Some ''1'',
       val = Some ''1'', unit = ''0/1'', description = ''''\<rparr>,
      \<lparr>dataType = ''M420 Z'', label = ''Fade height'', origValue = Some '''',
       val = Some '''', unit = ''mm'', description = ''''\<rparr>]"
    using level_of_blocks[of ?g "''Recv: echo:  M420 S1''" False empty_store]
    by (simp add: eepromFieldParse_frame vm_of_firmware_fields b m1 fld_def at_def empty_store_def)
  have m2: "exec (eepromM420RegEx ?g) ''Recv: echo:  M420 S1 Z10.00'' =
      Some [''M420 S1 Z10.00'', ''S'', ''1'', [], ''10.00'']"
    by (simp only: setRegExVars_all_versions exec_M420_both)
  show "eepromDataLevel (eeprom (eepromFieldParse ''Recv: echo:  M420 S1 Z10.00'' False
       (vm_of_firmware ''Marlin 1.1.8''))) =
     [\<lparr>dataType = ''M420 S'', label = ''Auto Bed Leveling'', origValue = Some ''1'',
       val = Some ''1'', unit = ''0/1'', description = ''''\<rparr>,
      \<lparr>dataType = ''M420 Z'', label = ''Fade height'', origValue = Some ''10.00'',
       val = Some ''10.00'', unit = ''mm'', description = ''''\<rparr>]"
    using level_of_blocks[of ?g "''Recv: echo:  M420 S1 Z10.00''" False empty_store]
    by (simp add: eepromFieldParse_frame vm_of_firmware_fields b m2 fld_def at_def empty_store_def)
  show "length (eepromDataLevel (eeprom (eepromFieldParse line rb
         (v\<lparr>patterns := setRegExVars version g\<rparr>))))
       \<noteq> Suc (length (eepromDataLevel (eeprom v)))"
    by (rule level_never_one)
qed

text \<open>
  C4 (the code departs from the claim). The claim: an entry produced while restoring has
  the empty string as its original value and the decoded capture as its value, and an
  entry produced by a live load or a backup has its original value equal to its value.
  The code: the value is not always the capture of the entry's slot. Under the name of a
  release candidate the \<^verbatim>\<open>M205\<close> pattern has the six slots S, T, B, X, Z, E (line 50), while
  the block under that name (lines 701 to 766) is the text of the stable one and pushes
  seven entries, reading the indices 8, 10, 12 and 14. Restoring the line
  \<^verbatim>\<open>Recv: echo:  M205 S0.00 T0.00 B20000 X20.00 Z0.40 E5.00\<close> under \<^verbatim>\<open>Marlin 1.1.0-RC3\<close>
  gives \<^verbatim>\<open>M205 Y\<close> the text captured for Z, \<^verbatim>\<open>M205 Z\<close> the text captured for E, and
  \<^verbatim>\<open>M205 E\<close> the value \<^verbatim>\<open>undefined\<close>, read past the end of the match array. The legacy
  branch (lines 963 to 988) has the same pattern and pushes X, Z, E from the indices 8,
  10, 12: the same line under \<^verbatim>\<open>Marlin 1.0.2\<close> gives each entry its own capture. Under
  \<^verbatim>\<open>Marlin bugfix-2.0.x\<close> the \<^verbatim>\<open>M900\<close> pattern has no R slot (line 33) and the block (lines
  405 to 412) still pushes \<^verbatim>\<open>M900 R\<close>, with the value \<^verbatim>\<open>undefined\<close>.

  What the claim says of the original value holds: every entry a line adds has the empty
  original value with \<^verbatim>\<open>restoreBackup = true\<close> and its value as its original value with
  \<^verbatim>\<open>restoreBackup = false\<close>; after \<^verbatim>\<open>handleFileSelect\<close> has replayed the files chosen every
  entry of the store has the empty original value; after \<^verbatim>\<open>loadEeprom\<close> or
  \<^verbatim>\<open>backupEeprom\<close> and any batches of the live feed handed to \<^verbatim>\<open>fromCurrentData\<close> every
  entry has its original value equal to its value.
\<close>

theorem restored_value_is_not_always_its_slot:
  "exec (eepromM205RegEx (patterns (vm_of_firmware ''Marlin 1.1.0-RC3'')))
       ''Recv: echo:  M205 S0.00 T0.00 B20000 X20.00 Z0.40 E5.00'' =
     Some [''M205 S0.00 T0.00 B20000 X20.00 Z0.40 E5.00'', ''S'', ''0.00'', ''T'', ''0.00'',
           ''B'', ''20000'', ''X'', ''20.00'', ''Z'', ''0.40'', ''E'', ''5.00'']
   \<and> map (\<lambda>f. (dataType f, origValue f, val f))
       (eepromData2 (eeprom (handleFileSelect
          [''Recv: echo:  M205 S0.00 T0.00 B20000 X20.00 Z0.40 E5.00'']
          (vm_of_firmware ''Marlin 1.1.0-RC3'')))) =
     [(''M205 X'', Some '''', Some ''20.00''), (''M205 Y'', Some '''', Some ''0.40''),
      (''M205 Z'', Some '''', Some ''5.00''), (''M205 E'', Some '''', None)]
   \<and> map (\<lambda>f. (dataType f, origValue f, val f))
       (eepromData2 (eeprom (handleFileSelect
          [''Recv: echo:  M205 S0.00 T0.00 B20000 X20.00 Z0.40 E5.00'']
          (vm_of_firmware ''Marlin 1.0.2'')))) =
     [(''M205 X'', Some '''', Some ''20.00''), (''M205 Z'', Some '''', Some ''0.40''),
      (''M205 E'', Some '''', Some ''5.00'')]
   \<and> exec (eepromM900RegEx (patterns (vm_of_firmware ''Marlin bugfix-2.0.x'')))
       ''Recv: echo:  M900 K0.22'' = Some [''M900 K0.22'', ''K'', ''0.22'', '''']
   \<and> map (\<lambda>f. (dataType f, origValue f, val f))
       (eepromDataLinear (eeprom (handleFileSelect [''Recv: echo:  M900 K0.22'']
          (vm_of_firmware ''Marlin bugfix-2.0.x'')))) =
     [(''M900 K'', Some '''', Some ''0.22''), (''M900 R'', Some '''', None)]
   \<and> (\<forall>i. \<exists>d. sec i (eeprom (eepromFieldParse line True v)) = sec i (eeprom v) @ d \<and>
          list_all (\<lambda>f. origValue f = Some []) d)
   \<and> (\<forall>i. \<exists>d. sec i (eeprom (eepromFieldParse line False v)) = sec i (eeprom v) @ d \<and>
          list_all (\<lambda>f. origValue f = val f) d)
   \<and> list_all (\<lambda>f. origValue f = Some [])
         (all_fields (eeprom (handleFileSelect (files @ [result]) v)))
   \<and> list_all (\<lambda>f. origValue f = val f)
         (all_fields (eeprom (foldl (\<lambda>u logs. fromCurrentData logs u) (loadEeprom v) batches)))
   \<and> list_all (\<lambda>f. origValue f = val f)
         (all_fields (eeprom (foldl (\<lambda>u logs. fromCurrentData logs u) (backupEeprom v) batches)))"
proof (intro conjI)
  let ?l205 = "''Recv: echo:  M205 S0.00 T0.00 B20000 X20.00 Z0.40 E5.00''"
  let ?l900 = "''Recv: echo:  M900 K0.22''"
  let ?rc = "setRegExVars ''Marlin 1.1.0-RC3'' (patterns initial_vm)"
  let ?lg = "setRegExVars ''Marlin 1.0.2'' (patterns initial_vm)"
  let ?bf = "setRegExVars ''Marlin bugfix-2.0.x'' (patterns initial_vm)"
  have n: "list_all (\<lambda>c. c \<noteq> CHR 0x0A) ?l205" "list_all (\<lambda>c. c \<noteq> CHR 0x0A) ?l900"
    by simp_all
  have mrc: "exec (eepromM205RegEx ?rc) ?l205 =
     Some [''M205 S0.00 T0.00 B20000 X20.00 Z0.40 E5.00'', ''S'', ''0.00'', ''T'', ''0.00'',
           ''B'', ''20000'', ''X'', ''20.00'', ''Z'', ''0.40'', ''E'', ''5.00'']"
    by (simp only: rc_M205_pattern exec_M205_rc_example)
  have mlg: "exec (eepromM205RegEx ?lg) ?l205 =
     Some [''M205 S0.00 T0.00 B20000 X20.00 Z0.40 E5.00'', ''S'', ''0.00'', ''T'', ''0.00'',
           ''B'', ''20000'', ''X'', ''20.00'', ''Z'', ''0.40'', ''E'', ''5.00'']"
    by (simp only: legacy_M205_pattern exec_M205_rc_example)
  have mbf: "exec (eepromM900RegEx ?bf) ?l900 = Some [''M900 K0.22'', ''K'', ''0.22'', '''']"
    by (simp only: bugfix_M900_pattern exec_M900_bugfix_example)
  have brc: "version_blocks ''Marlin 1.1.0-RC3'' = rc_blocks"
    by (rule version_blocks_rc) (simp add: rc_names_def)
  have blg: "version_blocks ''Marlin 1.0.2'' = legacy_blocks"
    by (rule version_blocks_legacy) (simp add: legacy_names_def)
  show "exec (eepromM205RegEx (patterns (vm_of_firmware ''Marlin 1.1.0-RC3''))) ?l205 =
     Some [''M205 S0.00 T0.00 B20000 X20.00 Z0.40 E5.00'', ''S'', ''0.00'', ''T'', ''0.00'',
           ''B'', ''20000'', ''X'', ''20.00'', ''Z'', ''0.40'', ''E'', ''5.00'']"
    by (simp only: vm_of_firmware_fields mrc)
  show "map (\<lambda>f. (dataType f, origValue f, val f))
       (eepromData2 (eeprom (handleFileSelect [?l205] (vm_of_firmware ''Marlin 1.1.0-RC3'')))) =
     [(''M205 X'', Some '''', Some ''20.00''), (''M205 Y'', Some '''', Some ''0.40''),
      (''M205 Z'', Some '''', Some ''5.00''), (''M205 E'', Some '''', None)]"
    using data2_of_rc_blocks[of ?rc ?l205 True empty_store]
    by (simp add: restore_one_line[OF n(1)] vm_of_firmware_fields brc matched_def mrc fld_def
        at_def empty_store_def)
  show "map (\<lambda>f. (dataType f, origValue f, val f))
       (eepromData2 (eeprom (handleFileSelect [?l205] (vm_of_firmware ''Marlin 1.0.2'')))) =
     [(''M205 X'', Some '''', Some ''20.00''), (''M205 Z'', Some '''', Some ''0.40''),
      (''M205 E'', Some '''', Some ''5.00'')]"
    using data2_of_legacy_blocks[of ?lg ?l205 True empty_store]
    by (simp add: restore_one_line[OF n(1)] vm_of_firmware_fields blg mlg fld_def
        at_def empty_store_def)
  show "exec (eepromM900RegEx (patterns (vm_of_firmware ''Marlin bugfix-2.0.x''))) ?l900 =
      Some [''M900 K0.22'', ''K'', ''0.22'', '''']"
    by (simp only: vm_of_firmware_fields mbf)
  show "map (\<lambda>f. (dataType f, origValue f, val f))
       (eepromDataLinear (eeprom (handleFileSelect [?l900]
          (vm_of_firmware ''Marlin bugfix-2.0.x'')))) =
     [(''M900 K'', Some '''', Some ''0.22''), (''M900 R'', Some '''', None)]"
    using linear_of_blocks[of "''Marlin bugfix-2.0.x''" ?bf ?l900 True empty_store]
    by (simp add: restore_one_line[OF n(2)] vm_of_firmware_fields matched_def mbf fld_def
        at_def empty_store_def)
  from restore_orig_all[of "FIRMWARE_NAME v" "patterns v" line]
  show "\<forall>i. \<exists>d. sec i (eeprom (eepromFieldParse line True v)) = sec i (eeprom v) @ d \<and>
          list_all (\<lambda>f. origValue f = Some []) d"
    by (simp add: pushes_def eepromFieldParse_frame)
  from live_orig_all[of "FIRMWARE_NAME v" "patterns v" line]
  show "\<forall>i. \<exists>d. sec i (eeprom (eepromFieldParse line False v)) = sec i (eeprom v) @ d \<and>
          list_all (\<lambda>f. origValue f = val f) d"
    by (simp add: pushes_def eepromFieldParse_frame)
  show "list_all (\<lambda>f. origValue f = Some [])
         (all_fields (eeprom (handleFileSelect (files @ [result]) v)))"
    unfolding handleFileSelect_last fileOnload_def
    by (rule parseLines_all_fields[OF restore_orig_all refl])
       (simp add: clearEepromData_def all_fields_empty)
  show "list_all (\<lambda>f. origValue f = val f)
         (all_fields (eeprom (foldl (\<lambda>u logs. fromCurrentData logs u) (loadEeprom v) batches)))"
    by (rule live_feed_store) (simp add: loadEeprom_frame all_fields_empty)
  show "list_all (\<lambda>f. origValue f = val f)
         (all_fields (eeprom (foldl (\<lambda>u logs. fromCurrentData logs u) (backupEeprom v) batches)))"
    by (rule live_feed_store) (simp add: backupEeprom_frame all_fields_empty)
qed

text \<open>
  C5. \<^verbatim>\<open>saveEeprom\<close> sends one command for each entry whose original value differs from
  its value, in the order of the sections and of their entries: the data type followed at
  once by the value, with nothing between them. Then it sends \<^verbatim>\<open>M500\<close> once, then
  \<^verbatim>\<open>M504\<close>, then runs \<^verbatim>\<open>loadEeprom\<close>, which clears the sections, disables the controls
  and, unless a print is running, requests the data again with \<^verbatim>\<open>M504\<close> and \<^verbatim>\<open>M501\<close>.
\<close>

theorem save_emits_dirty_fields_then_commit_then_reload:
  "sent (saveEeprom v) =
     sent v
     @ map (\<lambda>f. dataType f @ js_str (val f))
         (filter (\<lambda>f. origValue f \<noteq> val f) (all_fields (eeprom v)))
     @ [''M500'', ''M504'']
     @ (if isPrinting v then [] else [''M504'', ''M501''])
   \<and> (\<exists>w. saveEeprom v = loadEeprom w \<and>
          sent w = sent v
            @ map (\<lambda>f. dataType f @ js_str (val f))
                (filter (\<lambda>f. origValue f \<noteq> val f) (all_fields (eeprom v)))
            @ [''M500'', ''M504''])
   \<and> eeprom (saveEeprom v) = empty_store
   \<and> \<not> stateControls (saveEeprom v)"
proof (intro conjI)
  let ?w = "sendCustomCommand ''M504'' (sendCustomCommand ''M500''
           (saveSections save_order (setControls False v)))"
  have s: "saveEeprom v = loadEeprom ?w" by (simp add: saveEeprom_def)
  have c: "map save_command (filter (\<lambda>f. js_neq (origValue f) (val f)) fs) =
      map (\<lambda>f. dataType f @ js_str (val f)) (filter (\<lambda>f. origValue f \<noteq> val f) fs)" for fs
    by (simp add: save_command_def js_neq_def)
  show "sent (saveEeprom v) =
     sent v
     @ map (\<lambda>f. dataType f @ js_str (val f))
         (filter (\<lambda>f. origValue f \<noteq> val f) (all_fields (eeprom v)))
     @ [''M500'', ''M504'']
     @ (if isPrinting v then [] else [''M504'', ''M501''])"
    by (simp add: s loadEeprom_frame before_load_frame c)
  have "sent ?w = sent v
            @ map (\<lambda>f. dataType f @ js_str (val f))
                (filter (\<lambda>f. origValue f \<noteq> val f) (all_fields (eeprom v)))
            @ [''M500'', ''M504'']"
    by (simp add: before_load_frame c)
  with s show "\<exists>w. saveEeprom v = loadEeprom w \<and>
          sent w = sent v
            @ map (\<lambda>f. dataType f @ js_str (val f))
                (filter (\<lambda>f. origValue f \<noteq> val f) (all_fields (eeprom v)))
            @ [''M500'', ''M504'']"
    by (intro exI[of _ ?w] conjI)
  show "eeprom (saveEeprom v) = empty_store" by (simp add: s loadEeprom_frame)
  show "\<not> stateControls (saveEeprom v)" by (simp add: s loadEeprom_frame)
qed

theorem save_emits_dirty_fields_witness:
  "sent (saveEeprom edited_vm) =
     [''M504'', ''M501'', ''M851 Z-1.25'', ''M92 X81.50'', ''M500'', ''M504'', ''M504'', ''M501'']
   \<and> eeprom (saveEeprom edited_vm) = empty_store"
  using save_emits_dirty_fields_then_commit_then_reload[of edited_vm]
  by (simp add: edited_vm_fields js_str_def)

text \<open>
  C6. Under each firmware name of the legacy 1.0.2 family (\<^verbatim>\<open>Marlin 1.0.2+\<close>,
  \<^verbatim>\<open>Marlin V1.0.2;\<close>, \<^verbatim>\<open>Marlin 1.0.2\<close>, \<^verbatim>\<open>Marlin V1;\<close>) no line adds an entry with the
  data type \<^verbatim>\<open>M205 Y\<close>, whatever the patterns and \<^verbatim>\<open>restoreBackup\<close>; so no sequence of lines
  parsed into cleared sections leaves such an entry in the store.
\<close>

theorem legacy_never_produces_y_jerk:
  assumes "FIRMWARE_NAME v \<in> {''Marlin 1.0.2+'', ''Marlin V1.0.2;'', ''Marlin 1.0.2'', ''Marlin V1;''}"
  shows "(\<forall>i. \<exists>d. sec i (eeprom (eepromFieldParse line rb v)) = sec i (eeprom v) @ d \<and>
            list_all (\<lambda>f. dataType f \<noteq> ''M205 Y'') d)
       \<and> list_all (\<lambda>f. dataType f \<noteq> ''M205 Y'')
            (all_fields (eeprom (parseLines lines rb (clearEepromData v))))"
proof (intro conjI)
  from assms have "FIRMWARE_NAME v \<in> set legacy_names" by (simp add: legacy_names_def)
  then have b: "version_blocks (FIRMWARE_NAME v) = legacy_blocks" by (rule version_blocks_legacy)
  have p: "pushes (\<lambda>f. dataType f \<noteq> ''M205 Y'')
      (run_blocks (common_blocks @ version_blocks (FIRMWARE_NAME v)) g l rb)" for g l
    unfolding b by (rule pushes_no_y_jerk_legacy)
  from p[of "patterns v" line]
  show "\<forall>i. \<exists>d. sec i (eeprom (eepromFieldParse line rb v)) = sec i (eeprom v) @ d \<and>
            list_all (\<lambda>f. dataType f \<noteq> ''M205 Y'') d"
    by (simp add: pushes_def eepromFieldParse_frame)
  show "list_all (\<lambda>f. dataType f \<noteq> ''M205 Y'')
            (all_fields (eeprom (parseLines lines rb (clearEepromData v))))"
    by (rule parseLines_all_fields[OF p]) (simp_all add: clearEepromData_def all_fields_empty)
qed

theorem legacy_never_produces_y_jerk_witness:
  "FIRMWARE_NAME (vm_of_firmware ''Marlin 1.0.2'')
     \<in> {''Marlin 1.0.2+'', ''Marlin V1.0.2;'', ''Marlin 1.0.2'', ''Marlin V1;''}
   \<and> map dataType (eepromData2 (eeprom (eepromFieldParse
         ''echo:  M205 S0.00 T0.00 B20000 X20.00 Z0.40 E5.00'' False
         (vm_of_firmware ''Marlin 1.0.2''))))
       = [''M205 X'', ''M205 Z'', ''M205 E'']
   \<and> list_all (\<lambda>f. dataType f \<noteq> ''M205 Y'')
         (all_fields (eeprom (parseLines [''echo:  M205 S0.00 T0.00 B20000 X20.00 Z0.40 E5.00'']
            False (clearEepromData (vm_of_firmware ''Marlin 1.0.2'')))))"
proof (intro conjI)
  let ?v = "vm_of_firmware ''Marlin 1.0.2''"
  let ?line = "''echo:  M205 S0.00 T0.00 B20000 X20.00 Z0.40 E5.00''"
  show h: "FIRMWARE_NAME ?v \<in> {''Marlin 1.0.2+'', ''Marlin V1.0.2;'', ''Marlin 1.0.2'', ''Marlin V1;''}"
    by (simp add: vm_of_firmware_fields)
  from legacy_never_produces_y_jerk[OF h, of ?line False "[?line]"]
  show "list_all (\<lambda>f. dataType f \<noteq> ''M205 Y'')
         (all_fields (eeprom (parseLines [?line] False (clearEepromData ?v))))"
    by (rule conjunct2)
  have b: "version_blocks ''Marlin 1.0.2'' = legacy_blocks"
    by (rule version_blocks_legacy) (simp add: legacy_names_def)
  have m: "exec (eepromM205RegEx (setRegExVars ''Marlin 1.0.2'' (patterns initial_vm))) ?line =
     Some [''M205 S0.00 T0.00 B20000 X20.00 Z0.40 E5.00'', ''S'', ''0.00'', ''T'', ''0.00'',
           ''B'', ''20000'', ''X'', ''20.00'', ''Z'', ''0.40'', ''E'', ''5.00'']"
    by (simp only: legacy_M205_pattern exec_M205_legacy_example)
  show "map dataType (eepromData2 (eeprom (eepromFieldParse ?line False ?v)))
       = [''M205 X'', ''M205 Z'', ''M205 E'']"
    using data2_of_legacy_blocks[of "setRegExVars ''Marlin 1.0.2'' (patterns initial_vm)"
        ?line False empty_store]
    by (simp add: eepromFieldParse_frame vm_of_firmware_fields b m fld_def empty_store_def)
qed

text \<open>
  C7. Grammar resolution is total: \<open>setRegExVars\<close> is a function defined on every string.
  For every identity string that is in none of the enumerated version groups it assigns all
  the patterns, whatever they were before, and assigns exactly the patterns it assigns for
  each member of the latest stable group (\<^verbatim>\<open>latest\<close>, \<^verbatim>\<open>Marlin 1.1.0-RC8\<close> to
  \<^verbatim>\<open>Marlin 1.1.8\<close>): the fallback grammar is the latest stable grammar.
\<close>

theorem fallback_grammar_is_latest:
  assumes "version \<noteq> bugfix_version" and "version \<notin> set stable_versions"
    and "version \<notin> set rc_versions" and "version \<notin> set legacy_versions"
  shows "list_all (\<lambda>stable. setRegExVars version g = setRegExVars stable g') stable_versions"
proof -
  have 1: "setRegExVars version g = setRegExVars ''latest'' g'"
    using assms
    by (cases g; cases g') (simp add: setRegExVars_def setAllVersions_def Let_def version_lists)
  have 2: "list_all (\<lambda>stable. setRegExVars ''latest'' g' = setRegExVars stable g') stable_versions"
    by (simp add: setRegExVars_def Let_def version_lists)
  from 1 2 show ?thesis by simp
qed

theorem fallback_grammar_witness:
  "''Marlin 2.0.9'' \<noteq> bugfix_version \<and> ''Marlin 2.0.9'' \<notin> set stable_versions \<and>
   ''Marlin 2.0.9'' \<notin> set rc_versions \<and> ''Marlin 2.0.9'' \<notin> set legacy_versions \<and>
   list_all (\<lambda>stable. setRegExVars ''Marlin 2.0.9'' no_patterns = setRegExVars stable (patterns initial_vm))
     stable_versions"
proof -
  have h: "''Marlin 2.0.9'' \<noteq> bugfix_version" "''Marlin 2.0.9'' \<notin> set stable_versions"
    "''Marlin 2.0.9'' \<notin> set rc_versions" "''Marlin 2.0.9'' \<notin> set legacy_versions"
    by (simp_all add: version_lists)
  from h fallback_grammar_is_latest[OF h, of no_patterns "patterns initial_vm"]
  show ?thesis by (intro conjI)
qed

text \<open>
  C8. For every family other than the filament diameter, a line that matches the family's
  pattern appends the family's entries, and parsing the same line a second time appends a
  second copy of them behind the first and replaces nothing. Section by section, for every
  section but the filament one: what one parse of a line appends, named entry by entry
  with the pattern that must match and the index of the match array each value is read
  at, and that a second parse appends the same entries again. The entries of the firmware
  dependent families are given for each branch of the firmware name. At the end the
  example: parsing the steps-per-unit line \<^verbatim>\<open>M92 X80.00 Y80.00 Z400.00 E500.00\<close> twice
  leaves eight more entries, two groups X, Y, Z, E, in the steps section.
\<close>

theorem reextraction_appends_second_copy:
  "appends_twice line rb v Steps
     (matched (eepromM92RegEx (patterns v)) line (\<lambda>m.
        [fld rb m ''M92 X'' ''X axis'' 2 ''mm'' ''steps per unit'',
         fld rb m ''M92 Y'' ''Y axis'' 4 ''mm'' ''steps per unit'',
         fld rb m ''M92 Z'' ''Z axis'' 6 ''mm'' ''steps per unit'',
         fld rb m ''M92 E'' ''Extruder'' 8 ''mm'' ''steps per unit'']))
   \<and> appends_twice line rb v FRates
     (matched (eepromM203RegEx (patterns v)) line (\<lambda>m.
        [fld rb m ''M203 X'' ''X axis'' 2 ''mm'' ''rate per unit'',
         fld rb m ''M203 Y'' ''Y axis'' 4 ''mm'' ''rate per unit'',
         fld rb m ''M203 Z'' ''Z axis'' 6 ''mm'' ''rate per unit'',
         fld rb m ''M203 E'' ''Extruder'' 8 ''mm'' ''rate per unit'']))
   \<and> appends_twice line rb v MaxAccel
     (matched (eepromM201RegEx (patterns v)) line (\<lambda>m.
        [fld rb m ''M201 X'' ''X axis'' 2 ''mm/s2'' '''',
         fld rb m ''M201 Y'' ''Y axis'' 4 ''mm/s2'' '''',
         fld rb m ''M201 Z'' ''Z axis'' 6 ''mm/s2'' '''',
         fld rb m ''M201 E'' ''Extruder'' 8 ''mm/s2'' '''']))
   \<and> appends_twice line rb v Data1
     (matched (eepromM851RegEx (patterns v)) line (\<lambda>m.
        [fld rb m ''M851 Z'' ''Z-Probe Offset'' 2 ''mm'' '''']) @
     matched (eepromM205RegEx (patterns v)) line (\<lambda>m.
        [fld rb m ''M205 S'' ''Min feedrate'' 2 ''mm/s'' '''',
         fld rb m ''M205 T'' ''Min travel'' 4 ''mm/s'' '''',
         fld rb m ''M205 B'' ''Min segment'' 6 ''mm/s'' '''']))
   \<and> appends_twice line rb v Homing
     (matched (eepromM206RegEx (patterns v)) line (\<lambda>m.
        [fld rb m ''M206 X'' ''X axis'' 2 ''mm'' '''',
         fld rb m ''M206 Y'' ''Y axis'' 4 ''mm'' '''',
         fld rb m ''M206 Z'' ''Z axis'' 6 ''mm'' '''']))
   \<and> appends_twice line rb v Endstop
     (matched (eepromM666RegEx (patterns v)) line (\<lambda>m.
        [fld rb m ''M666 X'' ''X axis'' 2 ''mm'' '''',
         fld rb m ''M666 Y'' ''Y axis'' 4 ''mm'' '''',
         fld rb m ''M666 Z'' ''Z axis'' 6 ''mm'' '''']))
   \<and> appends_twice line rb v Delta1
     (matched (eepromM665RegEx (patterns v)) line (\<lambda>m.
        [fld rb m ''M665 L'' ''Diag Rod'' 2 ''mm'' '''',
         fld rb m ''M665 R'' ''Radius'' 4 ''mm'' '''',
         fld rb m ''M665 S'' ''Segments'' 6 ''s'' '''']))
   \<and> appends_twice line rb v Delta2
     (matched (eepromM665RegEx (patterns v)) line (\<lambda>m.
        [fld rb m ''M665 A'' ''Diag A'' 8 ''mm'' '''',
         fld rb m ''M665 B'' ''Diag B'' 10 ''mm'' '''',
         fld rb m ''M665 C'' ''Diag C'' 12 ''mm'' '''']))
   \<and> appends_twice line rb v Linear
     (matched (eepromM900RegEx (patterns v)) line (\<lambda>m.
        [fld rb m ''M900 K'' ''Linear Advance K'' 2 ''mm'' '''',
         fld rb m ''M900 R'' ''Linear Ratio'' 4 ''mm'' '''']))
   \<and> appends_twice line rb v PIDB
     (matched (eepromM304RegEx (patterns v)) line (\<lambda>m.
        [fld rb m ''M304 P'' ''Bed Kp'' 2 ''term'' '''',
         fld rb m ''M304 I'' ''Ki'' 4 ''term'' '''',
         fld rb m ''M304 D'' ''Kd'' 6 ''term'' '''']))
   \<and> appends_twice line rb v Data2
     (matched (eepromM205RegEx (patterns v)) line (\<lambda>m.
        by_name (FIRMWARE_NAME v)
          ([fld rb m ''M205 X'' ''Max X jerk'' 8 ''mm/s'' '''',
            fld rb m ''M205 Y'' ''Max Y jerk'' 10 ''mm/s'' '''',
            fld rb m ''M205 Z'' ''Max Z jerk'' 12 ''mm/s'' '''',
            fld rb m ''M205 E'' ''Max E jerk'' 14 ''mm/s'' ''''])
          ([fld rb m ''M205 X'' ''Max X jerk'' 8 ''mm/s'' '''',
            fld rb m ''M205 Y'' ''Max Y jerk'' 10 ''mm/s'' '''',
            fld rb m ''M205 Z'' ''Max Z jerk'' 12 ''mm/s'' '''',
            fld rb m ''M205 E'' ''Max E jerk'' 14 ''mm/s'' ''''])
          ([fld rb m ''M205 X'' ''Max X jerk'' 8 ''mm/s'' '''',
            fld rb m ''M205 Z'' ''Max Z jerk'' 10 ''mm/s'' '''',
            fld rb m ''M205 E'' ''Max E jerk'' 12 ''mm/s'' ''''])))
   \<and> appends_twice line rb v Accel
     (matched (eepromM204RegEx (patterns v)) line (\<lambda>m.
        by_name (FIRMWARE_NAME v)
          ([fld rb m ''M204 P'' ''Printing moves'' 2 ''mm/s2'' '''',
            fld rb m ''M204 R'' ''Retract'' 4 ''mm/s2'' '''',
            fld rb m ''M204 T'' ''Travel'' 6 ''mm/s2'' ''''])
          ([fld rb m ''M204 P'' ''Printing moves'' 2 ''mm/s2'' '''',
            fld rb m ''M204 R'' ''Retract'' 4 ''mm/s2'' '''',
            fld rb m ''M204 T'' ''Travel'' 6 ''mm/s2'' ''''])
          ([fld rb m ''M204 S'' ''Printing moves'' 2 ''mm/s2'' '''',
            fld rb m ''M204 T'' ''Travel'' 4 ''mm/s2'' ''''])))
   \<and> appends_twice line rb v PID
     (matched (eepromM301RegEx (patterns v)) line (\<lambda>m.
        by_name (FIRMWARE_NAME v)
          ([fld rb m ''M301 P'' ''Hotend Kp'' 2 ''term'' '''',
            fld rb m ''M301 I'' ''Ki'' 4 ''term'' '''',
            fld rb m ''M301 D'' ''Kd'' 6 ''term'' ''''])
          ([fld rb m ''M301 P'' ''Hotend Kp'' 2 ''term'' '''',
            fld rb m ''M301 I'' ''Ki'' 4 ''term'' '''',
            fld rb m ''M301 D'' ''Kd'' 6 ''term'' '''',
            fld rb m ''M301 C'' ''Kc'' 8 ''term'' '''',
            fld rb m ''M301 L'' ''LPQ'' 10 ''len'' ''''])
          ([fld rb m ''M301 P'' ''Hotend Kp'' 2 ''term'' '''',
            fld rb m ''M301 I'' ''Ki'' 4 ''term'' '''',
            fld rb m ''M301 D'' ''Kd'' 6 ''term'' ''''])))
   \<and> appends_twice line rb v MaterialHS0
     (by_name (FIRMWARE_NAME v)
       (matched (eepromM145S0RegEx (patterns v)) line (\<lambda>m.
          [fld rb m ''M145 S0 H'' ''S0 Hotend Temperature'' 2 '''' '''',
           fld rb m ''M145 S0 B'' ''Bed Temperature'' 4 '''' '''',
           fld rb m ''M145 S0 F'' ''Fan Speed'' 6 '''' '''']))
       (matched (eepromM145S0RegEx (patterns v)) line (\<lambda>m.
          [fld rb m ''M145 M0 H'' ''M0 Hotend Temperature'' 2 '''' '''',
           fld rb m ''M145 M0 B'' ''Bed Temperature'' 4 '''' '''',
           fld rb m ''M145 M0 F'' ''Fan Speed'' 6 '''' '''']))
       [])
   \<and> appends_twice line rb v MaterialHS1
     (by_name (FIRMWARE_NAME v)
       (matched (eepromM145S1RegEx (patterns v)) line (\<lambda>m.
          [fld rb m ''M145 S1 H'' ''S1 Hotend Temperature'' 2 '''' '''',
           fld rb m ''M145 S1 B'' ''Bed Temperature'' 4 '''' '''',
           fld rb m ''M145 S1 F'' ''Fan Speed'' 6 '''' '''']))
       (matched (eepromM145S1RegEx (patterns v)) line (\<lambda>m.
          [fld rb m ''M145 M1 H'' ''M1 Hotend Temperature'' 2 '''' '''',
           fld rb m ''M145 M1 B'' ''Bed Temperature'' 4 '''' '''',
           fld rb m ''M145 M1 F'' ''Fan Speed'' 6 '''' '''']))
       [])
   \<and> appends_twice line rb v MaterialHS2
     (by_name (FIRMWARE_NAME v)
       (matched (eepromM145S2RegEx (patterns v)) line (\<lambda>m.
          [fld rb m ''M145 S2 H'' ''S2 Hotend Temperature'' 2 '''' '''',
           fld rb m ''M145 S2 B'' ''Bed Temperature'' 4 '''' '''',
           fld rb m ''M145 S2 F'' ''Fan Speed'' 6 '''' '''']))
       (matched (eepromM145S2RegEx (patterns v)) line (\<lambda>m.
          [fld rb m ''M145 M2 H'' ''M2 Hotend Temperature'' 2 '''' '''',
           fld rb m ''M145 M2 B'' ''Bed Temperature'' 4 '''' '''',
           fld rb m ''M145 M2 F'' ''Fan Speed'' 6 '''' '''']))
       [])
   \<and> appends_twice line rb v Level
     (by_name (FIRMWARE_NAME v)
       (matched (eepromM420RegEx (patterns v)) line (\<lambda>m.
          if 3 \<le> length m
          then [fld rb m ''M420 S'' ''Auto Bed Leveling'' 2 ''0/1'' '''',
                fld rb m ''M420 Z'' ''Fade height'' 4 ''mm'' '''']
          else [fld rb m ''M420 S'' ''Auto Bed Leveling'' 2 ''0/1'' '''']))
       []
       [])
   \<and> eepromDataSteps (eeprom
       (eepromFieldParse ''M92 X80.00 Y80.00 Z400.00 E500.00'' False
         (eepromFieldParse ''M92 X80.00 Y80.00 Z400.00 E500.00'' False
           (v\<lparr>patterns := setRegExVars version g\<rparr>)))) =
     eepromDataSteps (eeprom v) @
       [\<lparr>dataType = ''M92 X'', label = ''X axis'', origValue = Some ''80.00'',
        val = Some ''80.00'', unit = ''mm'', description = ''steps per unit''\<rparr>,
        \<lparr>dataType = ''M92 Y'', label = ''Y axis'', origValue = Some ''80.00'',
        val = Some ''80.00'', unit = ''mm'', description = ''steps per unit''\<rparr>,
        \<lparr>dataType = ''M92 Z'', label = ''Z axis'', origValue = Some ''400.00'',
        val = Some ''400.00'', unit = ''mm'', description = ''steps per unit''\<rparr>,
        \<lparr>dataType = ''M92 E'', label = ''Extruder'', origValue = Some ''500.00'',
        val = Some ''500.00'', unit = ''mm'', description = ''steps per unit''\<rparr>,
        \<lparr>dataType = ''M92 X'', label = ''X axis'', origValue = Some ''80.00'',
        val = Some ''80.00'', unit = ''mm'', description = ''steps per unit''\<rparr>,
        \<lparr>dataType = ''M92 Y'', label = ''Y axis'', origValue = Some ''80.00'',
        val = Some ''80.00'', unit = ''mm'', description = ''steps per unit''\<rparr>,
        \<lparr>dataType = ''M92 Z'', label = ''Z axis'', origValue = Some ''400.00'',
        val = Some ''400.00'', unit = ''mm'', description = ''steps per unit''\<rparr>,
        \<lparr>dataType = ''M92 E'', label = ''Extruder'', origValue = Some ''500.00'',
        val = Some ''500.00'', unit = ''mm'', description = ''steps per unit''\<rparr>]"
proof -
  note run = block_lists block_frames block_effects by_name_def material_fields_def
  have steps: "appends_twice line rb w Steps
     (matched (eepromM92RegEx (patterns w)) line (\<lambda>m.
        [fld rb m ''M92 X'' ''X axis'' 2 ''mm'' ''steps per unit'',
         fld rb m ''M92 Y'' ''Y axis'' 4 ''mm'' ''steps per unit'',
         fld rb m ''M92 Z'' ''Z axis'' 6 ''mm'' ''steps per unit'',
         fld rb m ''M92 E'' ''Extruder'' 8 ''mm'' ''steps per unit'']))" for w line rb
    by (rule appends_twiceI) (simp add: run del: sec.simps)
  let ?line = "''M92 X80.00 Y80.00 Z400.00 E500.00''"
  let ?w = "v\<lparr>patterns := setRegExVars version g\<rparr>"
  have m: "exec (eepromM92RegEx (setRegExVars version g)) ?line =
     Some [''M92 X80.00 Y80.00 Z400.00 E500.00'',
           ''X'', ''80.00'', ''Y'', ''80.00'', ''Z'', ''400.00'', ''E'', ''500.00'']"
    by (simp only: setRegExVars_all_versions exec_M92_example)
  have example: "eepromDataSteps (eeprom (eepromFieldParse ?line False
         (eepromFieldParse ?line False ?w))) =
     eepromDataSteps (eeprom v) @
       [\<lparr>dataType = ''M92 X'', label = ''X axis'', origValue = Some ''80.00'',
        val = Some ''80.00'', unit = ''mm'', description = ''steps per unit''\<rparr>,
        \<lparr>dataType = ''M92 Y'', label = ''Y axis'', origValue = Some ''80.00'',
        val = Some ''80.00'', unit = ''mm'', description = ''steps per unit''\<rparr>,
        \<lparr>dataType = ''M92 Z'', label = ''Z axis'', origValue = Some ''400.00'',
        val = Some ''400.00'', unit = ''mm'', description = ''steps per unit''\<rparr>,
        \<lparr>dataType = ''M92 E'', label = ''Extruder'', origValue = Some ''500.00'',
        val = Some ''500.00'', unit = ''mm'', description = ''steps per unit''\<rparr>,
        \<lparr>dataType = ''M92 X'', label = ''X axis'', origValue = Some ''80.00'',
        val = Some ''80.00'', unit = ''mm'', description = ''steps per unit''\<rparr>,
        \<lparr>dataType = ''M92 Y'', label = ''Y axis'', origValue = Some ''80.00'',
        val = Some ''80.00'', unit = ''mm'', description = ''steps per unit''\<rparr>,
        \<lparr>dataType = ''M92 Z'', label = ''Z axis'', origValue = Some ''400.00'',
        val = Some ''400.00'', unit = ''mm'', description = ''steps per unit''\<rparr>,
        \<lparr>dataType = ''M92 E'', label = ''Extruder'', origValue = Some ''500.00'',
        val = Some ''500.00'', unit = ''mm'', description = ''steps per unit''\<rparr>]"
    using steps[of ?line False ?w]
    by (simp add: appends_twice_def matched_def m fld_def at_def)
  show ?thesis
    by (intro conjI; (rule example | (rule appends_twiceI, simp add: run del: sec.simps)))
qed

theorem reextraction_appends_second_copy_witness:
  "map (\<lambda>f. (dataType f, val f))
     (eepromDataMaterialHS0 (eeprom
       (eepromFieldParse ''Recv: echo:  M145 M0 H180 B70 F255'' False
         (eepromFieldParse ''Recv: echo:  M145 M0 H180 B70 F255'' False
           (vm_of_firmware ''Marlin 1.1.0-RC7''))))) =
     [(''M145 M0 H'', Some ''180''), (''M145 M0 B'', Some ''70''), (''M145 M0 F'', Some ''255''),
      (''M145 M0 H'', Some ''180''), (''M145 M0 B'', Some ''70''), (''M145 M0 F'', Some ''255'')]"
proof -
  let ?line = "''Recv: echo:  M145 M0 H180 B70 F255''"
  let ?v = "vm_of_firmware ''Marlin 1.1.0-RC7''"
  have m: "exec (eepromM145S0RegEx (setRegExVars ''Marlin 1.1.0-RC7'' (patterns initial_vm)))
      ?line =
     Some [''M145 M0 H180 B70 F255'', ''H'', ''180'', ''B'', ''70'', ''F'', ''255'']"
    by (simp only: rc_M145_pattern exec_M145_rc_example)
  have n: "by_name (FIRMWARE_NAME ?v) a b c = b" for a b c :: "eeprom_field list"
    by (simp add: by_name_def vm_of_firmware_fields stable_names_def rc_names_def)
  note c2 = conjunct2
  from reextraction_appends_second_copy[of ?line False ?v, THEN c2, THEN c2, THEN c2, THEN c2,
      THEN c2, THEN c2, THEN c2, THEN c2, THEN c2, THEN c2, THEN c2, THEN c2, THEN c2,
      THEN conjunct1]
  have "appends_twice ?line False ?v MaterialHS0
     (by_name (FIRMWARE_NAME ?v)
       (matched (eepromM145S0RegEx (patterns ?v)) ?line (\<lambda>m.
          [fld False m ''M145 S0 H'' ''S0 Hotend Temperature'' 2 '''' '''',
           fld False m ''M145 S0 B'' ''Bed Temperature'' 4 '''' '''',
           fld False m ''M145 S0 F'' ''Fan Speed'' 6 '''' '''']))
       (matched (eepromM145S0RegEx (patterns ?v)) ?line (\<lambda>m.
          [fld False m ''M145 M0 H'' ''M0 Hotend Temperature'' 2 '''' '''',
           fld False m ''M145 M0 B'' ''Bed Temperature'' 4 '''' '''',
           fld False m ''M145 M0 F'' ''Fan Speed'' 6 '''' '''']))
       [])" .
  then have "appends_twice ?line False ?v MaterialHS0
     (matched (eepromM145S0RegEx (patterns ?v)) ?line (\<lambda>m.
          [fld False m ''M145 M0 H'' ''M0 Hotend Temperature'' 2 '''' '''',
           fld False m ''M145 M0 B'' ''Bed Temperature'' 4 '''' '''',
           fld False m ''M145 M0 F'' ''Fan Speed'' 6 '''' '''']))"
    by (simp only: n)
  then show ?thesis
    by (simp add: appends_twice_def matched_def m fld_def at_def vm_of_firmware_fields
        empty_store_def)
qed

text \<open>
  C9. The filament section takes the first match only. Once it holds an entry, no line
  changes it; while it is empty, a line that matches the \<^verbatim>\<open>M200\<close> pattern puts one entry
  there. So after any lines parsed into cleared sections it holds at most one entry.
\<close>

theorem filament_accepts_first_match_only:
  "(eepromDataFilament (eeprom v) \<noteq> [] \<longrightarrow>
      eepromDataFilament (eeprom (eepromFieldParse line rb v)) = eepromDataFilament (eeprom v))
   \<and> (eepromDataFilament (eeprom v) = [] \<longrightarrow>
        exec (eepromM200RegEx (patterns v)) line = Some m \<longrightarrow>
        eepromDataFilament (eeprom (eepromFieldParse line rb v)) =
          [fld rb m ''M200 D'' ''Diameter'' 2 ''mm'' ''''])
   \<and> length (eepromDataFilament (eeprom (parseLines lines rb (clearEepromData v)))) \<le> 1"
proof (intro conjI impI)
  note f = filament_of_blocks[of "FIRMWARE_NAME v" "patterns v" line rb "eeprom v"]
  show "eepromDataFilament (eeprom (eepromFieldParse line rb v)) = eepromDataFilament (eeprom v)"
    if "eepromDataFilament (eeprom v) \<noteq> []"
    using that f by (simp add: eepromFieldParse_frame split: option.splits)
  show "eepromDataFilament (eeprom (eepromFieldParse line rb v)) =
          [fld rb m ''M200 D'' ''Diameter'' 2 ''mm'' '''']"
    if "eepromDataFilament (eeprom v) = []" "exec (eepromM200RegEx (patterns v)) line = Some m"
    using that f by (simp add: eepromFieldParse_frame)
  have "length (sec Filament (eeprom (parseLines lines rb (clearEepromData v)))) \<le> 1"
    by (rule filament_at_most_one) (simp add: clearEepromData_def empty_store_def)
  then show "length (eepromDataFilament (eeprom (parseLines lines rb (clearEepromData v)))) \<le> 1"
    by simp
qed

theorem filament_accepts_first_match_only_witness:
  "eepromDataFilament (eeprom (eepromFieldParse ''echo:  M200 D1.75'' False
       (vm_of_firmware ''Marlin 1.1.8''))) \<noteq> []
   \<and> map val (eepromDataFilament (eeprom (eepromFieldParse ''echo:  M200 D3.00'' False
       (eepromFieldParse ''echo:  M200 D1.75'' False (vm_of_firmware ''Marlin 1.1.8'')))))
     = [Some ''1.75'']"
proof -
  let ?v = "vm_of_firmware ''Marlin 1.1.8''"
  let ?v1 = "eepromFieldParse ''echo:  M200 D1.75'' False ?v"
  have m: "exec (eepromM200RegEx (patterns ?v)) ''echo:  M200 D1.75'' =
      Some [''M200 D1.75'', ''D'', ''1.75'']"
    by (simp only: vm_of_firmware_fields setRegExVars_all_versions exec_M200_example)
  have e: "eepromDataFilament (eeprom ?v) = []"
    by (simp add: vm_of_firmware_fields empty_store_def)
  from filament_accepts_first_match_only[of ?v "''echo:  M200 D1.75''" False _ "[]"] e m
  have 1: "eepromDataFilament (eeprom ?v1) =
      [fld False [''M200 D1.75'', ''D'', ''1.75''] ''M200 D'' ''Diameter'' 2 ''mm'' '''']"
    by blast
  then have n: "eepromDataFilament (eeprom ?v1) \<noteq> []" by simp
  from filament_accepts_first_match_only[of ?v1 "''echo:  M200 D3.00''" False _ "[]"] n
  have "eepromDataFilament (eeprom (eepromFieldParse ''echo:  M200 D3.00'' False ?v1)) =
      eepromDataFilament (eeprom ?v1)"
    by blast
  with 1 n show ?thesis by (simp add: fld_def at_def)
qed

text \<open>
  C10. The acknowledgement pattern \<^verbatim>\<open>/ok/\<close> is not anchored. \<^verbatim>\<open>eepromFieldParse\<close> schedules
  the re-enabling of the controls exactly when the line contains the two characters
  \<^verbatim>\<open>ok\<close> somewhere, inside another word too. In a running backup session (Marlin firmware
  known, \<^verbatim>\<open>execBackup\<close> set, the start marker seen before or in this batch) the session
  ends, and the file is offered for download, as soon as the accumulated text, that is the
  text so far followed by the batch and a line feed, contains \<^verbatim>\<open>ok\<close> somewhere.
\<close>

theorem acknowledgement_is_substring_match:
  "timers (eepromFieldParse line rb (v\<lparr>patterns := setRegExVars version g\<rparr>)) =
     (if sublist ''ok'' line then Suc (timers v) else timers v)
   \<and> (isMarlinFirmware v \<longrightarrow> execBackup v \<longrightarrow>
        (startBackup v \<or> sublist ''M501'' (join_comma logs)) \<longrightarrow>
        sublist ''ok'' (backupConfig v @ join_comma logs @ [CHR 0x0A]) \<longrightarrow>
        \<not> execBackup (fromCurrentData logs (v\<lparr>patterns := setRegExVars version g\<rparr>)) \<and>
        downloads (fromCurrentData logs (v\<lparr>patterns := setRegExVars version g\<rparr>)) =
          downloads v @ [normalizeBackup (backupConfig v @ join_comma logs @ [CHR 0x0A])])"
proof (intro conjI impI)
  show "timers (eepromFieldParse line rb (v\<lparr>patterns := setRegExVars version g\<rparr>)) =
     (if sublist ''ok'' line then Suc (timers v) else timers v)"
    by (simp add: eepromFieldParse_frame setRegExVars_all_versions exec_lit)
  let ?v = "v\<lparr>patterns := setRegExVars version g\<rparr>"
  assume h: "isMarlinFirmware v" "execBackup v"
    "startBackup v \<or> sublist ''M501'' (join_comma logs)"
    "sublist ''ok'' (backupConfig v @ join_comma logs @ [CHR 0x0A])"
  then have b: "\<not> execBackup (backupStep logs ?v) \<and>
      downloads (backupStep logs ?v) =
        downloads v @ [normalizeBackup (backupConfig v @ join_comma logs @ [CHR 0x0A])]"
    by (auto simp: backupStep_def Let_def setRegExVars_all_versions exec_lit)
  from h(1) have f: "fromCurrentData logs ?v = parseLines logs False (backupStep logs ?v)"
    by (simp add: fromCurrentData_def)
  from b show "\<not> execBackup (fromCurrentData logs ?v)"
    by (simp add: f parseLines_frame)
  from b show "downloads (fromCurrentData logs ?v) =
      downloads v @ [normalizeBackup (backupConfig v @ join_comma logs @ [CHR 0x0A])]"
    by (simp add: f parseLines_frame)
qed

theorem acknowledgement_is_substring_match_witness:
  "isMarlinFirmware (backupEeprom (vm_of_firmware ''Marlin 1.1.8''))
   \<and> execBackup (backupEeprom (vm_of_firmware ''Marlin 1.1.8''))
   \<and> sublist ''M501'' (join_comma [''Send: M501'', ''Recv: look here''])
   \<and> sublist ''ok'' (backupConfig (backupEeprom (vm_of_firmware ''Marlin 1.1.8'')) @
        join_comma [''Send: M501'', ''Recv: look here''] @ [CHR 0x0A])
   \<and> \<not> execBackup (fromCurrentData [''Send: M501'', ''Recv: look here'']
          (backupEeprom (vm_of_firmware ''Marlin 1.1.8'')))
   \<and> length (downloads (fromCurrentData [''Send: M501'', ''Recv: look here'']
          (backupEeprom (vm_of_firmware ''Marlin 1.1.8'')))) = 1
   \<and> timers (eepromFieldParse ''Recv: look here'' False (vm_of_firmware ''Marlin 1.1.8'')) = 1"
proof -
  let ?v = "backupEeprom (vm_of_firmware ''Marlin 1.1.8'')"
  let ?logs = "[''Send: M501'', ''Recv: look here'']"
  have v: "isMarlinFirmware ?v" "execBackup ?v" "backupConfig ?v = []" "downloads ?v = []"
    "?v\<lparr>patterns := setRegExVars ''Marlin 1.1.8'' (patterns initial_vm)\<rparr> = ?v"
    by (simp_all add: backupEeprom_frame vm_of_firmware_fields patterns_update_same)
  have "sublist ''M501'' (''Send: '' @ ''M501'' @ '',Recv: look here'')"
    by (rule sublist_appendI)
  then have s1: "sublist ''M501'' (join_comma ?logs)" by simp
  have "sublist ''ok'' (''Send: M501,Recv: lo'' @ ''ok'' @ '' here'' @ [CHR 0x0A])"
    by (rule sublist_appendI)
  then have s2: "sublist ''ok'' (backupConfig ?v @ join_comma ?logs @ [CHR 0x0A])"
    by (simp add: v)
  have "sublist ''ok'' (''Recv: lo'' @ ''ok'' @ '' here'')"
    by (rule sublist_appendI)
  then have s3: "sublist ''ok'' ''Recv: look here''" by simp
  have w: "vm_of_firmware ''Marlin 1.1.8''
      \<lparr>patterns := setRegExVars ''Marlin 1.1.8'' (patterns initial_vm)\<rparr> = vm_of_firmware ''Marlin 1.1.8''"
    "timers (vm_of_firmware ''Marlin 1.1.8'') = 0"
    by (simp_all add: vm_of_firmware_fields patterns_update_same)
  note t = acknowledgement_is_substring_match[where version = "''Marlin 1.1.8''"
      and g = "patterns initial_vm"]
  from t[where logs = ?logs and v = ?v] v s1 s2
  have b: "\<not> execBackup (fromCurrentData ?logs ?v) \<and>
      length (downloads (fromCurrentData ?logs ?v)) = 1"
    by simp
  from t[where line = "''Recv: look here''" and rb = False and v = "vm_of_firmware ''Marlin 1.1.8''"]
    s3 w
  have "timers (eepromFieldParse ''Recv: look here'' False (vm_of_firmware ''Marlin 1.1.8'')) = 1"
    by simp
  with b v s1 s2 show ?thesis by (intro conjI) simp_all
qed

end
